theory Spec2Isabelle
  imports Complex_Main
begin

section \<open>JavaScript values\<close>

text \<open>
  The three scripts (delete-group.js, create-group.js, list-groups.js) receive relay
  frames as text, turn them into values with \<^verbatim>\<open>JSON.parse\<close> and index them without
  any check of their shape. The model therefore works on the values \<^verbatim>\<open>JSON.parse\<close> can
  return, together with \<^verbatim>\<open>undefined\<close>, which reading a missing element gives.
  Numbers are rationals: every finite double is one, and the scripts only test numbers
  for truthiness and strict equality with a string. An object is the list of its own
  properties.
\<close>

datatype jsval =
    Undefined
  | JNull
  | JBool bool
  | JNum rat
  | JStr string
  | JArr "jsval list"
  | JObj "(string \<times> jsval) list"

datatype js_error = SyntaxError | TypeError | RangeError

text \<open>Truthiness, as \<^verbatim>\<open>if (v)\<close>, \<^verbatim>\<open>!v\<close> and \<^verbatim>\<open>a || b\<close> test it.\<close>

fun truthy :: "jsval \<Rightarrow> bool" where
  "truthy Undefined = False"
| "truthy JNull = False"
| "truthy (JBool b) = b"
| "truthy (JNum n) = (n \<noteq> 0)"
| "truthy (JStr s) = (s \<noteq> [])"
| "truthy (JArr xs) = True"
| "truthy (JObj kvs) = True"

definition js_or :: "jsval \<Rightarrow> jsval \<Rightarrow> jsval" where
  "js_or a b = (if truthy a then a else b)"

text \<open>
  \<^verbatim>\<open>n.toString(radix)\<close> for a non-negative integer: the digits are \<^verbatim>\<open>0-9a-z\<close>.
\<close>

definition digit_char :: "nat \<Rightarrow> char" where
  "digit_char d = (''0123456789abcdefghijklmnopqrstuvwxyz'' ! d)"

function toString_radix :: "nat \<Rightarrow> nat \<Rightarrow> string" where
  "toString_radix r n =
     (if r < 2 \<or> 36 < r then []
      else if n < r then [digit_char n]
      else toString_radix r (n div r) @ [digit_char (n mod r)])"
  by pat_completeness auto
termination
  by (relation "measure (\<lambda>(r, n). n)") auto

declare toString_radix.simps [simp del]

text \<open>
  \<^verbatim>\<open>v[i]\<close>: a \<^verbatim>\<open>TypeError\<close> on \<^verbatim>\<open>null\<close> and \<^verbatim>\<open>undefined\<close>, \<^verbatim>\<open>undefined\<close> on a
  boolean or a number, the character on a string, the element on an array, the property
  named by the decimal digits of \<open>i\<close> on an object.
\<close>

fun js_index :: "jsval \<Rightarrow> nat \<Rightarrow> js_error + jsval" where
  "js_index Undefined i = Inl TypeError"
| "js_index JNull i = Inl TypeError"
| "js_index (JBool b) i = Inr Undefined"
| "js_index (JNum n) i = Inr Undefined"
| "js_index (JStr s) i = Inr (if i < length s then JStr [s ! i] else Undefined)"
| "js_index (JArr xs) i = Inr (if i < length xs then xs ! i else Undefined)"
| "js_index (JObj kvs) i =
     Inr (case map_of kvs (toString_radix 10 i) of Some v \<Rightarrow> v | None \<Rightarrow> Undefined)"

text \<open>
  \<^verbatim>\<open>v[i]\<close> where \<open>v\<close> has already been indexed without an error, so that the read
  cannot throw: the handlers read \<^verbatim>\<open>response[1]\<close>, \<^verbatim>\<open>response[2]\<close> and
  \<^verbatim>\<open>response[3]\<close> only after \<^verbatim>\<open>response[0]\<close>.
\<close>

definition elem :: "jsval \<Rightarrow> nat \<Rightarrow> jsval" where
  "elem v i = (case js_index v i of Inr x \<Rightarrow> x | Inl e \<Rightarrow> Undefined)"

text \<open>
  \<^verbatim>\<open>v.key\<close> for the property names the scripts read (\<^verbatim>\<open>content\<close>, \<^verbatim>\<open>tags\<close>,
  \<^verbatim>\<open>created_at\<close>, \<^verbatim>\<open>name\<close>, \<^verbatim>\<open>about\<close>, \<^verbatim>\<open>private\<close>): none of them is defined on
  a built-in prototype of a parsed value, so only an object's own property can answer.
\<close>

fun js_get :: "jsval \<Rightarrow> string \<Rightarrow> js_error + jsval" where
  "js_get Undefined k = Inl TypeError"
| "js_get JNull k = Inl TypeError"
| "js_get (JObj kvs) k = Inr (case map_of kvs k of Some v \<Rightarrow> v | None \<Rightarrow> Undefined)"
| "js_get v k = Inr Undefined"

section \<open>Signed events and frames\<close>

record event_template =
  kind :: nat
  created_at :: nat
  tags :: "jsval list list"
  content :: string

record signed_event = event_template +
  ev_pubkey :: string
  ev_id :: string
  ev_sig :: string

text \<open>
  The signing identity derived from the recovery phrase: its public key and the two
  functions that give an event's content-addressed identifier and its signature.
\<close>

record signer =
  getPublicKey :: string
  getEventHash :: "event_template \<Rightarrow> string"
  signEvent :: "event_template \<Rightarrow> string"

text \<open>
  Modelled from the spec: \<^verbatim>\<open>finalizeEvent\<close> belongs to the nostr-tools library, whose
  code is not in the repository. The spec's Signed Event Factory "produces signed,
  content-addressed event objects from a template (kind, timestamp, tag list, payload)
  and a signing identity", the identifier and signature being "derived entirely from the
  other fields plus the signing key". The library's own validation of a template is not
  modelled.
\<close>

definition finalizeEvent :: "event_template \<Rightarrow> signer \<Rightarrow> signed_event" where
  "finalizeEvent t k =
     \<lparr> kind = kind t, created_at = created_at t, tags = tags t, content = content t,
       ev_pubkey = getPublicKey k, ev_id = getEventHash k t, ev_sig = signEvent k t \<rparr>"

text \<open>The filter object of a \<^verbatim>\<open>REQ\<close>: \<^verbatim>\<open>kinds\<close>, and \<^verbatim>\<open>#d\<close> when it is there.\<close>

record req_filter =
  kinds :: "nat list"
  tag_d :: "string list option"

text \<open>The arrays the scripts pass to \<^verbatim>\<open>JSON.stringify\<close> and \<^verbatim>\<open>ws.send\<close>.\<close>

datatype out_frame =
    OutAuth signed_event
  | OutEvent signed_event
  | OutReq string req_filter
  | OutClose string

section \<open>Effects, timers and the process\<close>

record group =
  g_id :: jsval
  g_name :: jsval
  g_description :: jsval
  g_private :: jsval
  g_created :: string

text \<open>One constructor for each line the scripts print after the socket is created.\<close>

datatype console_msg =
    Connected
  | Authenticating
  | SendingDelete
  | GroupDeleted
  | FailedToDelete jsval
  | WebSocketError string
  | Timeout
  | CheckingExists
  | GroupAlreadyExists string
  | SendingCreate
  | GroupCreated
  | GroupIdLine string
  | CreatingInvite
  | FailedToCreate jsval
  | InviteCreated
  | Blank
  | Rule
  | InviteUrl string string
  | ShareThisUrl
  | InviteFailed jsval
  | NoGroupsFound
  | FoundGroups nat
  | GroupHeading nat jsval bool
  | GroupId jsval
  | GroupDescription jsval
  | GroupCreatedAt string
  | NoGroupsOrTimeout
  | AuthenticationFailed jsval

datatype timer = SendDeleteEvent | SendCheckReq | SendGroupsRequest | Deadline

datatype effect =
    ConsoleLog console_msg
  | ConsoleError console_msg
  | WsSend out_frame
  | WsClose
  | SetTimeout nat timer
  | ProcessExit int

datatype status = Running | Exited int | Crashed js_error

text \<open>
  A running script: its mutable variables, the calls it has made so far in order, the
  timers that are armed (delay in milliseconds and callback), and whether the process
  is still alive. An error that no handler catches ends the process. The trace records
  the calls \<^verbatim>\<open>ws.send\<close>, \<^verbatim>\<open>ws.close\<close>, \<^verbatim>\<open>console.log\<close>, \<^verbatim>\<open>console.error\<close>,
  \<^verbatim>\<open>setTimeout\<close> and \<^verbatim>\<open>process.exit\<close> as the script makes them; what the socket
  library does with a frame is outside the repository and outside the model.
\<close>

record 'v proc =
  vars :: 'v
  trace :: "effect list"
  timers :: "(nat \<times> timer) list"
  status :: status

text \<open>
  Making one call, and a list of calls in order: a call is appended to the trace,
  \<^verbatim>\<open>setTimeout\<close> arms its timer, \<^verbatim>\<open>process.exit\<close> ends the process, and nothing that
  follows an exit runs.
\<close>

definition perform1 :: "effect \<Rightarrow> 'v proc \<Rightarrow> 'v proc" where
  "perform1 e st =
     (if status st \<noteq> Running then st
      else case e of
        SetTimeout d k \<Rightarrow> st\<lparr>trace := trace st @ [e], timers := timers st @ [(d, k)]\<rparr>
      | ProcessExit c \<Rightarrow> st\<lparr>trace := trace st @ [e], status := Exited c\<rparr>
      | _ \<Rightarrow> st\<lparr>trace := trace st @ [e]\<rparr>)"

definition perform :: "effect list \<Rightarrow> 'v proc \<Rightarrow> 'v proc" where
  "perform es st = fold perform1 es st"

text \<open>A timer that fires is disarmed: the first armed entry with its callback.\<close>

fun remove_timer :: "timer \<Rightarrow> (nat \<times> timer) list \<Rightarrow> (nat \<times> timer) list" where
  "remove_timer k [] = []"
| "remove_timer k ((d, k') # ts) = (if k' = k then ts else (d, k') # remove_timer k ts)"

definition armed :: "timer \<Rightarrow> (nat \<times> timer) list \<Rightarrow> bool" where
  "armed k ts = (k \<in> snd ` set ts)"

text \<open>
  What the event loop delivers: the socket's \<^verbatim>\<open>open\<close>, \<^verbatim>\<open>message\<close>, \<^verbatim>\<open>error\<close> and
  \<^verbatim>\<open>close\<close> signals and the expiry of a timer. Each comes with the value of
  \<^verbatim>\<open>Date.now()\<close> at that moment.
\<close>

datatype event =
    Open
  | Message string
  | TimerFired timer
  | SocketError string
  | SocketClose

section \<open>Configuration and runtime\<close>

text \<open>
  What a script reads from its command line and environment, and the built-ins of the
  runtime it calls: \<^verbatim>\<open>JSON.parse\<close> (on any value, which it first converts to a
  string), \<^verbatim>\<open>new Date(v * 1000).toISOString()\<close> and the draws of
  \<^verbatim>\<open>Math.floor(Math.random() * chars.length)\<close>. The model begins where the socket is
  created, after the start-up checks of arguments and recovery phrase have passed;
  \<open>haveKey\<close> says whether list-groups.js, the one script that runs without a key, has
  one. \<open>idTime\<close> and \<open>startTime\<close> are the values of \<^verbatim>\<open>Date.now()\<close> inside
  \<^verbatim>\<open>generateGroupId\<close> and where the event template is built.
\<close>

record env =
  relayUrl :: string
  sphereUrl :: string
  argGroupId :: string
  argName :: string
  argDescription :: "string option"
  isPrivate :: bool
  privateKeyBytes :: signer
  haveKey :: bool
  idTime :: nat
  startTime :: nat
  randomIndex :: "nat \<Rightarrow> nat"
  JSON_parse :: "jsval \<Rightarrow> js_error + jsval"
  toISOString :: "jsval \<Rightarrow> js_error + string"

text \<open>The authentication event of all three scripts (kind 22242).\<close>

definition authEvent :: "env \<Rightarrow> nat \<Rightarrow> jsval \<Rightarrow> signed_event" where
  "authEvent e now challenge =
     finalizeEvent
       \<lparr> kind = 22242, created_at = now div 1000,
         tags = [[JStr ''relay'', JStr (relayUrl e)], [JStr ''challenge'', challenge]],
         content = '''' \<rparr>
       (privateKeyBytes e)"

definition auth_submits :: "effect list \<Rightarrow> signed_event list" where
  "auth_submits es = concat (map (\<lambda>x. case x of WsSend (OutAuth ev) \<Rightarrow> [ev] | _ \<Rightarrow> []) es)"

section \<open>delete-group.js\<close>

definition NIP29_DELETE_GROUP :: nat where
  "NIP29_DELETE_GROUP = 9008"

definition delete_signedEvent :: "env \<Rightarrow> signed_event" where
  "delete_signedEvent e =
     finalizeEvent
       \<lparr> kind = NIP29_DELETE_GROUP, created_at = startTime e div 1000,
         tags = [[JStr ''h'', JStr (argGroupId e)]], content = '''' \<rparr>
       (privateKeyBytes e)"

text \<open>
  The body of the \<^verbatim>\<open>message\<close> handler after \<^verbatim>\<open>JSON.parse\<close>: the calls it makes, or
  the error it throws.
\<close>

definition delete_message :: "env \<Rightarrow> nat \<Rightarrow> jsval \<Rightarrow> js_error + effect list" where
  "delete_message e now response =
     (case js_index response 0 of
        Inl err \<Rightarrow> Inl err
      | Inr r0 \<Rightarrow>
          if r0 = JStr ''AUTH'' then
            Inr [ConsoleLog Authenticating,
                 WsSend (OutAuth (authEvent e now (elem response 1))),
                 SetTimeout 500 SendDeleteEvent]
          else if r0 = JStr ''OK'' then
            (let eventId = elem response 1;
                 success = elem response 2;
                 message = elem response 3
             in if eventId = JStr (ev_id (delete_signedEvent e)) then
                  Inr ((if truthy success then [ConsoleLog GroupDeleted]
                        else [ConsoleError (FailedToDelete message)]) @ [WsClose])
                else Inr [])
          else Inr [])"

text \<open>
  The callbacks of the two \<^verbatim>\<open>setTimeout\<close> calls: the submission 500 ms after a
  challenge, and the deadline of 15000 ms.
\<close>

definition delete_timer :: "env \<Rightarrow> timer \<Rightarrow> effect list" where
  "delete_timer e k =
     (case k of
        SendDeleteEvent \<Rightarrow> [ConsoleLog SendingDelete, WsSend (OutEvent (delete_signedEvent e))]
      | Deadline \<Rightarrow> [ConsoleError Timeout, WsClose, ProcessExit 1]
      | _ \<Rightarrow> [])"

text \<open>
  One turn of the event loop, with the handlers of \<^verbatim>\<open>open\<close>, \<^verbatim>\<open>message\<close>, \<^verbatim>\<open>error\<close> and
  \<^verbatim>\<open>close\<close>. A process that has ended handles nothing more, and only an armed timer
  can fire. A run is a list of such turns from the state in which the socket has been
  created and the deadline armed.
\<close>

definition delete_step :: "env \<Rightarrow> nat \<times> event \<Rightarrow> unit proc \<Rightarrow> unit proc" where
  "delete_step e tev st =
     (if status st \<noteq> Running then st
      else case snd tev of
        Open \<Rightarrow> perform [ConsoleLog Connected] st
      | Message data \<Rightarrow>
          (case JSON_parse e (JStr data) of
             Inl err \<Rightarrow> st\<lparr>status := Crashed err\<rparr>
           | Inr response \<Rightarrow>
               (case delete_message e (fst tev) response of
                  Inl err \<Rightarrow> st\<lparr>status := Crashed err\<rparr>
                | Inr es \<Rightarrow> perform es st))
      | TimerFired k \<Rightarrow>
          if armed k (timers st)
          then perform (delete_timer e k) (st\<lparr>timers := remove_timer k (timers st)\<rparr>)
          else st
      | SocketError msg \<Rightarrow> perform [ConsoleError (WebSocketError msg), ProcessExit 1] st
      | SocketClose \<Rightarrow> perform [ProcessExit 0] st)"

definition delete_init :: "unit proc" where
  "delete_init =
     perform [SetTimeout 15000 Deadline]
       \<lparr> vars = (), trace = [], timers = [], status = Running \<rparr>"

definition delete_run :: "env \<Rightarrow> (nat \<times> event) list \<Rightarrow> unit proc" where
  "delete_run e evs = fold (delete_step e) evs delete_init"

section \<open>create-group.js\<close>

definition NIP29_CREATE_GROUP :: nat where
  "NIP29_CREATE_GROUP = 9007"

definition NIP29_CREATE_INVITE :: nat where
  "NIP29_CREATE_INVITE = 9009"

text \<open>
  \<^verbatim>\<open>toLowerCase\<close> on the characters below 256 (the characters of \<^typ>\<open>char\<close>): the
  letters A-Z and the Latin-1 capitals (192-222 but the multiplication sign 215) move
  up by 32, every other character stays.
\<close>

definition toLowerCase_char :: "char \<Rightarrow> char" where
  "toLowerCase_char c =
     (let n = (of_char c :: nat)
      in if (65 \<le> n \<and> n \<le> 90) \<or> (192 \<le> n \<and> n \<le> 222 \<and> n \<noteq> 215)
         then char_of (n + 32) else c)"

definition toLowerCase :: "string \<Rightarrow> string" where
  "toLowerCase s = map toLowerCase_char s"

text \<open>The character class \<^verbatim>\<open>[a-z0-9]\<close>.\<close>

definition in_a_z_0_9 :: "char \<Rightarrow> bool" where
  "in_a_z_0_9 c =
     (let n = (of_char c :: nat) in (97 \<le> n \<and> n \<le> 122) \<or> (48 \<le> n \<and> n \<le> 57))"

text \<open>\<^verbatim>\<open>.replace(/[^a-z0-9]/g, '')\<close>: every character outside the class is dropped.\<close>

fun replace_non_a_z_0_9 :: "string \<Rightarrow> string" where
  "replace_non_a_z_0_9 [] = []"
| "replace_non_a_z_0_9 (c # cs) =
     (if in_a_z_0_9 c then c # replace_non_a_z_0_9 cs else replace_non_a_z_0_9 cs)"

text \<open>\<^verbatim>\<open>.slice(0, n)\<close> on a string.\<close>

definition slice0 :: "nat \<Rightarrow> string \<Rightarrow> string" where
  "slice0 n s = take n s"

text \<open>
  \<^verbatim>\<open>generateGroupId\<close>; \<open>now\<close> is the value of \<^verbatim>\<open>Date.now()\<close>. The operator
  \<^verbatim>\<open>||\<close> takes its right side when the string on its left is empty.
\<close>

definition generateGroupId :: "nat \<Rightarrow> string \<Rightarrow> string" where
  "generateGroupId now groupName =
     (let s = slice0 24 (replace_non_a_z_0_9 (toLowerCase groupName))
      in if s \<noteq> [] then s else ''group'' @ toString_radix 36 now)"

text \<open>
  The normalisation in the words of the specification: lowercase, non-alphanumeric
  characters stripped, truncated to the maximum length.
\<close>

definition normalized_name :: "string \<Rightarrow> string" where
  "normalized_name n = take 24 (filter in_a_z_0_9 (map toLowerCase_char n))"

definition groupId :: "env \<Rightarrow> string" where
  "groupId e = generateGroupId (idTime e) (argName e)"

text \<open>
  The create event, built once at the start; a missing description is \<^verbatim>\<open>undefined\<close>,
  which \<^verbatim>\<open>description || ''\<close> turns into the empty string.
\<close>

definition create_signedEvent :: "env \<Rightarrow> signed_event" where
  "create_signedEvent e =
     finalizeEvent
       \<lparr> kind = NIP29_CREATE_GROUP, created_at = startTime e div 1000,
         tags = [[JStr ''h'', JStr (groupId e)],
                 [JStr ''name'', JStr (argName e)],
                 [JStr ''about'', JStr (case argDescription e of Some d \<Rightarrow> d | None \<Rightarrow> [])],
                 [JStr ''public'', JStr (if isPrivate e then ''false'' else ''true'')]],
         content = '''' \<rparr>
       (privateKeyBytes e)"

text \<open>
  \<^verbatim>\<open>generateInviteCode\<close>: twelve draws from the 36 characters; \<^verbatim>\<open>chars[i]\<close> out
  of range would be \<^verbatim>\<open>undefined\<close>, which \<^verbatim>\<open>+=\<close> appends as text.
\<close>

definition invite_chars :: string where
  "invite_chars = ''abcdefghijklmnopqrstuvwxyz0123456789''"

definition generateInviteCode :: "env \<Rightarrow> string" where
  "generateInviteCode e =
     concat (map (\<lambda>i. if randomIndex e i < length invite_chars
                       then [invite_chars ! randomIndex e i] else ''undefined'')
                 [0..<12])"

definition inviteCode :: "env \<Rightarrow> string option" where
  "inviteCode e = (if isPrivate e then Some (generateInviteCode e) else None)"

definition inviteEvent :: "env \<Rightarrow> nat \<Rightarrow> signed_event" where
  "inviteEvent e now =
     finalizeEvent
       \<lparr> kind = NIP29_CREATE_INVITE, created_at = now div 1000,
         tags = [[JStr ''h'', JStr (groupId e)],
                 [JStr ''code'', (case inviteCode e of Some c \<Rightarrow> JStr c | None \<Rightarrow> JNull)]],
         content = '''' \<rparr>
       (privateKeyBytes e)"

record create_vars =
  authenticated :: bool
  groupExists :: bool

definition check_filter :: "env \<Rightarrow> req_filter" where
  "check_filter e = \<lparr> kinds = [39000], tag_d = Some [groupId e] \<rparr>"

text \<open>
  The body of the \<^verbatim>\<open>message\<close> handler after \<^verbatim>\<open>JSON.parse\<close>: the calls it makes and
  the variables it leaves, or the error it throws. The invite URL is kept as the base
  URL and the parameter that \<^verbatim>\<open>encodeURIComponent\<close> receives.
\<close>

definition create_message ::
  "env \<Rightarrow> nat \<Rightarrow> jsval \<Rightarrow> create_vars \<Rightarrow> js_error + (effect list \<times> create_vars)" where
  "create_message e now response v =
     (case js_index response 0 of
        Inl err \<Rightarrow> Inl err
      | Inr r0 \<Rightarrow>
          if r0 = JStr ''AUTH'' then
            Inr ([ConsoleLog Authenticating,
                  WsSend (OutAuth (authEvent e now (elem response 1))),
                  SetTimeout 300 SendCheckReq],
                 v\<lparr>authenticated := True\<rparr>)
          else if r0 = JStr ''EVENT'' \<and> elem response 1 = JStr ''check'' then
            Inr ([], v\<lparr>groupExists := True\<rparr>)
          else if r0 = JStr ''EOSE'' \<and> elem response 1 = JStr ''check'' then
            Inr (WsSend (OutClose ''check'') #
                 (if groupExists v
                  then [ConsoleError (GroupAlreadyExists (groupId e)), WsClose]
                  else [ConsoleLog SendingCreate, WsSend (OutEvent (create_signedEvent e))]),
                 v)
          else if r0 = JStr ''OK'' then
            (let eventId = elem response 1;
                 success = elem response 2;
                 message = elem response 3
             in if eventId = JStr (ev_id (create_signedEvent e)) then
                  (if truthy success then
                     Inr ([ConsoleLog GroupCreated, ConsoleLog (GroupIdLine (groupId e))] @
                          (if isPrivate e \<and>
                              (case inviteCode e of Some c \<Rightarrow> c \<noteq> [] | None \<Rightarrow> False)
                           then [ConsoleLog CreatingInvite,
                                 WsSend (OutEvent (inviteEvent e now))]
                           else [WsClose]),
                          v)
                   else Inr ([ConsoleError (FailedToCreate message), WsClose], v))
                else if isPrivate e then
                  Inr ((if truthy success then
                          [ConsoleLog InviteCreated, ConsoleLog Blank, ConsoleLog Rule,
                           ConsoleLog
                             (InviteUrl (sphereUrl e)
                                (groupId e @ ''/'' @
                                 (case inviteCode e of Some c \<Rightarrow> c | None \<Rightarrow> ''null''))),
                           ConsoleLog Rule, ConsoleLog Blank, ConsoleLog ShareThisUrl]
                        else [ConsoleError (InviteFailed message),
                              ConsoleLog (GroupIdLine (groupId e))]) @ [WsClose],
                       v)
                else Inr ([], v))
          else Inr ([], v))"

text \<open>
  The callbacks of the two \<^verbatim>\<open>setTimeout\<close> calls: the existence check 300 ms after a
  challenge, and the deadline of 15000 ms.
\<close>

definition create_timer :: "env \<Rightarrow> timer \<Rightarrow> effect list" where
  "create_timer e k =
     (case k of
        SendCheckReq \<Rightarrow> [ConsoleLog CheckingExists, WsSend (OutReq ''check'' (check_filter e))]
      | Deadline \<Rightarrow> [ConsoleError Timeout, WsClose, ProcessExit 1]
      | _ \<Rightarrow> [])"

definition create_step ::
  "env \<Rightarrow> nat \<times> event \<Rightarrow> create_vars proc \<Rightarrow> create_vars proc" where
  "create_step e tev st =
     (if status st \<noteq> Running then st
      else case snd tev of
        Open \<Rightarrow> perform [ConsoleLog Connected] st
      | Message data \<Rightarrow>
          (case JSON_parse e (JStr data) of
             Inl err \<Rightarrow> st\<lparr>status := Crashed err\<rparr>
           | Inr response \<Rightarrow>
               (case create_message e (fst tev) response (vars st) of
                  Inl err \<Rightarrow> st\<lparr>status := Crashed err\<rparr>
                | Inr (es, v) \<Rightarrow> perform es (st\<lparr>vars := v\<rparr>)))
      | TimerFired k \<Rightarrow>
          if armed k (timers st)
          then perform (create_timer e k) (st\<lparr>timers := remove_timer k (timers st)\<rparr>)
          else st
      | SocketError msg \<Rightarrow> perform [ConsoleError (WebSocketError msg), ProcessExit 1] st
      | SocketClose \<Rightarrow> perform [ProcessExit 0] st)"

definition create_init :: "create_vars proc" where
  "create_init =
     perform [SetTimeout 15000 Deadline]
       \<lparr> vars = \<lparr> authenticated = False, groupExists = False \<rparr>,
         trace = [], timers = [], status = Running \<rparr>"

definition create_run :: "env \<Rightarrow> (nat \<times> event) list \<Rightarrow> create_vars proc" where
  "create_run e evs = fold (create_step e) evs create_init"

section \<open>list-groups.js\<close>

definition NIP29_GROUP_METADATA :: nat where
  "NIP29_GROUP_METADATA = 39000"

record list_vars =
  authenticatedL :: bool
  groups :: "group list"

definition groups_filter :: req_filter where
  "groups_filter = \<lparr> kinds = [NIP29_GROUP_METADATA], tag_d = None \<rparr>"

definition sendGroupsRequest :: "effect list" where
  "sendGroupsRequest = [WsSend (OutReq ''groups'' groups_filter)]"

text \<open>
  \<^verbatim>\<open>v.key\<close> where \<open>v\<close> has already been read without an error, so that the read
  cannot throw.
\<close>

definition js_prop :: "jsval \<Rightarrow> string \<Rightarrow> jsval" where
  "js_prop v k = (case js_get v k of Inr x \<Rightarrow> x | Inl e \<Rightarrow> Undefined)"

text \<open>
  Name, description and visibility after the block that reads the JSON content. The
  inner \<^verbatim>\<open>try\<close> has an empty \<^verbatim>\<open>catch\<close>: when \<^verbatim>\<open>JSON.parse\<close> throws, or the parsed
  value is \<^verbatim>\<open>null\<close> so that its first property read throws, the three defaults stay.
\<close>

definition content_metadata :: "env \<Rightarrow> jsval \<Rightarrow> jsval \<times> jsval \<times> jsval" where
  "content_metadata e c =
     (let name = JStr ''Unnamed''; description = JStr []; isPriv = JBool False
      in if truthy c then
           (case JSON_parse e c of
              Inl err \<Rightarrow> (name, description, isPriv)
            | Inr metadata \<Rightarrow>
                (case js_get metadata ''name'' of
                   Inl err \<Rightarrow> (name, description, isPriv)
                 | Inr n \<Rightarrow>
                     (js_or n name,
                      js_or (js_prop metadata ''about'') description,
                      js_or (js_prop metadata ''private'') isPriv)))
         else (name, description, isPriv))"

text \<open>One turn of the loop over \<^verbatim>\<open>event.tags\<close>: the four \<^verbatim>\<open>if\<close>s in their order.\<close>

definition apply_tag ::
  "jsval \<times> jsval \<times> jsval \<Rightarrow> jsval \<Rightarrow> js_error + (jsval \<times> jsval \<times> jsval)" where
  "apply_tag acc tag =
     (case js_index tag 0 of
        Inl err \<Rightarrow> Inl err
      | Inr t0 \<Rightarrow>
          (case acc of (name, description, isPriv) \<Rightarrow>
             (let name1 = (if t0 = JStr ''name'' then elem tag 1 else name);
                  description1 = (if t0 = JStr ''about'' then elem tag 1 else description);
                  isPriv1 = (if t0 = JStr ''public''
                             then JBool (elem tag 1 = JStr ''false'') else isPriv);
                  isPriv2 = (if t0 = JStr ''private''
                             then JBool (elem tag 1 = JStr ''true'') else isPriv1)
              in Inr (name1, description1, isPriv2))))"

fun apply_tags ::
  "jsval \<times> jsval \<times> jsval \<Rightarrow> jsval list \<Rightarrow> js_error + (jsval \<times> jsval \<times> jsval)" where
  "apply_tags acc [] = Inr acc"
| "apply_tags acc (tag # ts) =
     (case apply_tag acc tag of Inl err \<Rightarrow> Inl err | Inr acc' \<Rightarrow> apply_tags acc' ts)"

text \<open>
  The body of the outer \<^verbatim>\<open>try\<close> of the \<^verbatim>\<open>EVENT\<close> branch: the record that is pushed,
  or the error that the outer \<^verbatim>\<open>catch\<close> swallows. Only an array can be both iterated
  by \<^verbatim>\<open>for ... of\<close> and searched with \<^verbatim>\<open>.find\<close>: a string is iterable, its
  characters never equal a tag name, and it has no \<^verbatim>\<open>find\<close>; every other value is not
  iterable.
\<close>

definition group_record :: "env \<Rightarrow> jsval \<Rightarrow> js_error + group" where
  "group_record e event =
     (case js_get event ''content'' of
        Inl err \<Rightarrow> Inl err
      | Inr c \<Rightarrow>
          (case js_prop event ''tags'' of
             JArr ts \<Rightarrow>
               (case apply_tags (content_metadata e c) ts of
                  Inl err \<Rightarrow> Inl err
                | Inr (name, description, isPriv) \<Rightarrow>
                    (let gid = js_or (case find (\<lambda>t. elem t 0 = JStr ''d'') ts of
                                        Some t \<Rightarrow> elem t 1 | None \<Rightarrow> Undefined)
                                     (JStr ''unknown'')
                     in case toISOString e (js_prop event ''created_at'') of
                          Inl err \<Rightarrow> Inl err
                        | Inr created \<Rightarrow>
                            Inr \<lparr> g_id = gid, g_name = name, g_description = description,
                                  g_private = isPriv, g_created = created \<rparr>))
           | _ \<Rightarrow> Inl TypeError))"

text \<open>What the \<^verbatim>\<open>EOSE\<close> branch prints.\<close>

definition print_group :: "nat \<times> group \<Rightarrow> effect list" where
  "print_group ig =
     (case ig of (i, g) \<Rightarrow>
        [ConsoleLog (GroupHeading (i + 1) (g_name g) (truthy (g_private g))),
         ConsoleLog (GroupId (g_id g))] @
        (if truthy (g_description g) then [ConsoleLog (GroupDescription (g_description g))]
         else []) @
        [ConsoleLog (GroupCreatedAt (g_created g)), ConsoleLog Blank])"

definition print_groups :: "group list \<Rightarrow> effect list" where
  "print_groups gs =
     (if length gs = 0 then [ConsoleLog NoGroupsFound]
      else ConsoleLog (FoundGroups (length gs)) # concat (map print_group (enumerate 0 gs)))"

text \<open>
  The body of the \<^verbatim>\<open>message\<close> handler after \<^verbatim>\<open>JSON.parse\<close>. A malformed event is
  skipped by the outer \<^verbatim>\<open>catch\<close>; the \<^verbatim>\<open>EOSE\<close> branch does not look at the label.
\<close>

definition list_message ::
  "env \<Rightarrow> nat \<Rightarrow> jsval \<Rightarrow> list_vars \<Rightarrow> js_error + (effect list \<times> list_vars)" where
  "list_message e now response v =
     (case js_index response 0 of
        Inl err \<Rightarrow> Inl err
      | Inr r0 \<Rightarrow>
          if r0 = JStr ''AUTH'' \<and> haveKey e \<and> \<not> authenticatedL v then
            Inr ([ConsoleLog Authenticating,
                  WsSend (OutAuth (authEvent e now (elem response 1))),
                  SetTimeout 300 SendGroupsRequest],
                 v\<lparr>authenticatedL := True\<rparr>)
          else if r0 = JStr ''EVENT'' \<and> elem response 1 = JStr ''groups'' then
            (case group_record e (elem response 2) of
               Inl err \<Rightarrow> Inr ([], v)
             | Inr g \<Rightarrow> Inr ([], v\<lparr>groups := groups v @ [g]\<rparr>))
          else if r0 = JStr ''EOSE'' then
            Inr (print_groups (groups v) @ [WsClose], v)
          else if r0 = JStr ''OK'' \<and> truthy (elem response 1) \<and> \<not> truthy (elem response 2) then
            Inr ([ConsoleError (AuthenticationFailed (elem response 3))], v)
          else Inr ([], v))"

text \<open>
  The callbacks of the two \<^verbatim>\<open>setTimeout\<close> calls: the request 300 ms after a
  challenge, and the deadline of 5000 ms, which reports no failure.
\<close>

definition list_timer :: "list_vars \<Rightarrow> timer \<Rightarrow> effect list" where
  "list_timer v k =
     (case k of
        SendGroupsRequest \<Rightarrow> sendGroupsRequest
      | Deadline \<Rightarrow>
          (if length (groups v) = 0 then [ConsoleLog NoGroupsOrTimeout] else []) @ [WsClose]
      | _ \<Rightarrow> [])"

definition list_step :: "env \<Rightarrow> nat \<times> event \<Rightarrow> list_vars proc \<Rightarrow> list_vars proc" where
  "list_step e tev st =
     (if status st \<noteq> Running then st
      else case snd tev of
        Open \<Rightarrow> (if \<not> haveKey e then perform sendGroupsRequest st else st)
      | Message data \<Rightarrow>
          (case JSON_parse e (JStr data) of
             Inl err \<Rightarrow> st\<lparr>status := Crashed err\<rparr>
           | Inr response \<Rightarrow>
               (case list_message e (fst tev) response (vars st) of
                  Inl err \<Rightarrow> st\<lparr>status := Crashed err\<rparr>
                | Inr (es, v) \<Rightarrow> perform es (st\<lparr>vars := v\<rparr>)))
      | TimerFired k \<Rightarrow>
          if armed k (timers st)
          then perform (list_timer (vars st) k) (st\<lparr>timers := remove_timer k (timers st)\<rparr>)
          else st
      | SocketError msg \<Rightarrow> perform [ConsoleError (WebSocketError msg), ProcessExit 1] st
      | SocketClose \<Rightarrow> perform [ProcessExit 0] st)"

definition list_init :: "list_vars proc" where
  "list_init =
     perform [SetTimeout 5000 Deadline]
       \<lparr> vars = \<lparr> authenticatedL = False, groups = [] \<rparr>,
         trace = [], timers = [], status = Running \<rparr>"

definition list_run :: "env \<Rightarrow> (nat \<times> event) list \<Rightarrow> list_vars proc" where
  "list_run e evs = fold (list_step e) evs list_init"

section \<open>Notions used by the theorems\<close>

text \<open>The timers a list of calls arms, and whether a call ends the process.\<close>

definition new_timers :: "effect list \<Rightarrow> (nat \<times> timer) list" where
  "new_timers es = concat (map (\<lambda>x. case x of SetTimeout d k \<Rightarrow> [(d, k)] | _ \<Rightarrow> []) es)"

definition is_exit :: "effect \<Rightarrow> bool" where
  "is_exit x = (case x of ProcessExit c \<Rightarrow> True | _ \<Rightarrow> False)"

text \<open>
  The first element of the frame a \<^verbatim>\<open>message\<close> event carries, when the text parses
  and the parsed value can be indexed; and the frame's second element.
\<close>

definition frame_tag :: "env \<Rightarrow> event \<Rightarrow> jsval option" where
  "frame_tag e ev =
     (case ev of
        Message data \<Rightarrow>
          (case JSON_parse e (JStr data) of
             Inl err \<Rightarrow> None
           | Inr response \<Rightarrow>
               (case js_index response 0 of Inl err \<Rightarrow> None | Inr r0 \<Rightarrow> Some r0))
      | _ \<Rightarrow> None)"

definition frame_label :: "env \<Rightarrow> event \<Rightarrow> jsval" where
  "frame_label e ev =
     (case ev of
        Message data \<Rightarrow>
          (case JSON_parse e (JStr data) of Inl err \<Rightarrow> Undefined | Inr response \<Rightarrow> elem response 1)
      | _ \<Rightarrow> Undefined)"

definition is_frame :: "env \<Rightarrow> string \<Rightarrow> string \<Rightarrow> event \<Rightarrow> bool" where
  "is_frame e t l ev = (frame_tag e ev = Some (JStr t) \<and> frame_label e ev = JStr l)"

text \<open>The calls of a trace that send a given frame, and the frames of a trace.\<close>

definition sent :: "out_frame \<Rightarrow> effect list \<Rightarrow> bool" where
  "sent f tr = (WsSend f \<in> set tr)"

definition frames :: "effect list \<Rightarrow> out_frame list" where
  "frames es = concat (map (\<lambda>x. case x of WsSend f \<Rightarrow> [f] | _ \<Rightarrow> []) es)"

definition auth_sent :: "effect list \<Rightarrow> bool" where
  "auth_sent tr = list_ex (\<lambda>x. case x of WsSend (OutAuth a) \<Rightarrow> True | _ \<Rightarrow> False) tr"

text \<open>
  A relay that answers: along a list of events for create-group.js, started in the
  state \<open>st\<close>, every \<^verbatim>\<open>EOSE\<close> frame for \<^verbatim>\<open>check\<close> arrives when the \<^verbatim>\<open>REQ\<close> for
  \<^verbatim>\<open>check\<close> has already been sent.
\<close>

fun answers_after_req :: "env \<Rightarrow> create_vars proc \<Rightarrow> (nat \<times> event) list \<Rightarrow> bool" where
  "answers_after_req e st [] = True"
| "answers_after_req e st (tev # evs) =
     ((if is_frame e ''EOSE'' ''check'' (snd tev)
       then sent (OutReq ''check'' (check_filter e)) (trace st) else True) \<and>
      answers_after_req e (create_step e tev st) evs)"

section \<open>A configuration for the examples\<close>

text \<open>
  A signing identity whose identifiers tell the kinds of events apart, and a runtime
  whose \<^verbatim>\<open>JSON.parse\<close> is given on the texts the examples use (every other text is
  taken not to be JSON) and whose date conversion is given on one timestamp.
\<close>

definition sample_signer :: signer where
  "sample_signer =
     \<lparr> getPublicKey = ''84de98f'',
       getEventHash = (\<lambda>t. if kind t = 22242 then ''auth-id''
                            else if kind t = 9009 then ''invite-id'' else ''event-id''),
       signEvent = (\<lambda>t. ''sig'') \<rparr>"

text \<open>The metadata event of the specification's example for list-groups.js.\<close>

definition sample_metadata_event :: jsval where
  "sample_metadata_event =
     JObj [(''kind'', JNum 39000),
           (''created_at'', JNum 1737288000),
           (''content'', JStr ''{\"name\":\"X\",\"about\":\"Y\"}''),
           (''tags'', JArr [JArr [JStr ''name'', JStr ''Z'']])]"

text \<open>
  A string as JSON text writes it: between quotes, with every quote and backslash
  escaped. The relay's frame that carries the example event has its content in this
  form.
\<close>

definition json_quote :: "string \<Rightarrow> string" where
  "json_quote s =
     ''\"'' @
     concat (map (\<lambda>c. if c = CHR 0x22 \<or> c = CHR 0x5C then [CHR 0x5C, c] else [c]) s) @
     ''\"''"

definition sample_groups_frame :: string where
  "sample_groups_frame =
     ''[\"EVENT\",\"groups\",{\"kind\":39000,\"created_at\":1737288000,\"content\":'' @
     json_quote ''{\"name\":\"X\",\"about\":\"Y\"}'' @
     '',\"tags\":[[\"name\",\"Z\"]]}]''"

definition sample_JSON_parse :: "jsval \<Rightarrow> js_error + jsval" where
  "sample_JSON_parse v =
     (if v = JStr ''null'' then Inr JNull
      else if v = JStr ''[\"AUTH\",\"nonce123\"]'' then
        Inr (JArr [JStr ''AUTH'', JStr ''nonce123''])
      else if v = JStr ''[\"NOTICE\",\"hello\"]'' then
        Inr (JArr [JStr ''NOTICE'', JStr ''hello''])
      else if v = JStr ''[\"EVENT\",\"check\",{}]'' then
        Inr (JArr [JStr ''EVENT'', JStr ''check'', JObj []])
      else if v = JStr ''[\"EOSE\",\"check\"]'' then
        Inr (JArr [JStr ''EOSE'', JStr ''check''])
      else if v = JStr ''[\"OK\",\"event-id\",false,\"group not found\"]'' then
        Inr (JArr [JStr ''OK'', JStr ''event-id'', JBool False, JStr ''group not found''])
      else if v = JStr ''[\"OK\",\"auth-id\",true,\"\"]'' then
        Inr (JArr [JStr ''OK'', JStr ''auth-id'', JBool True, JStr []])
      else if v = JStr ''{\"name\":\"X\",\"about\":\"Y\"}'' then
        Inr (JObj [(''name'', JStr ''X''), (''about'', JStr ''Y'')])
      else if v = JStr ''[\"EOSE\",\"groups\"]'' then
        Inr (JArr [JStr ''EOSE'', JStr ''groups''])
      else if v = JStr sample_groups_frame then
        Inr (JArr [JStr ''EVENT'', JStr ''groups'', sample_metadata_event])
      else Inl SyntaxError)"

definition sample_toISOString :: "jsval \<Rightarrow> js_error + string" where
  "sample_toISOString v =
     (if v = JNum 1737288000 then Inr ''2025-01-19T12:00:00.000Z'' else Inl RangeError)"

definition sample_env :: env where
  "sample_env =
     \<lparr> relayUrl = ''ws://localhost:3334'',
       sphereUrl = ''http://localhost:5173'',
       argGroupId = ''ghost-group'',
       argName = ''Team Chat!!'',
       argDescription = Some ''Private team discussions'',
       isPrivate = True,
       privateKeyBytes = sample_signer,
       haveKey = True,
       idTime = 1737288000000,
       startTime = 1737288000000,
       randomIndex = (\<lambda>i. i),
       JSON_parse = sample_JSON_parse,
       toISOString = sample_toISOString \<rparr>"

section \<open>Tags in the words of the specification\<close>

text \<open>
  The value of the last tag named \<open>k\<close>, and the visibility the last \<^verbatim>\<open>public\<close> or
  \<^verbatim>\<open>private\<close> tag gives ("tags are read in order so a later tag overrides an earlier
  one").
\<close>

definition tag_value :: "string \<Rightarrow> jsval list \<Rightarrow> jsval option" where
  "tag_value k ts =
     (case filter (\<lambda>t. elem t 0 = JStr k) ts of
        [] \<Rightarrow> None
      | x # xs \<Rightarrow> Some (elem (last (x # xs)) 1))"

definition tag_visibility :: "jsval list \<Rightarrow> jsval option" where
  "tag_visibility ts =
     (case filter (\<lambda>t. elem t 0 = JStr ''public'' \<or> elem t 0 = JStr ''private'') ts of
        [] \<Rightarrow> None
      | x # xs \<Rightarrow>
          Some (JBool (if elem (last (x # xs)) 0 = JStr ''public''
                       then elem (last (x # xs)) 1 = JStr ''false''
                       else elem (last (x # xs)) 1 = JStr ''true'')))"

section \<open>Running a list of calls\<close>

lemma perform_Nil: "perform [] st = st"
  by (simp add: perform_def)

lemma perform_Cons: "perform (x # xs) st = perform xs (perform1 x st)"
  by (simp add: perform_def)

lemma perform_append: "perform (xs @ ys) st = perform ys (perform xs st)"
  by (simp add: perform_def)

lemma perform_stopped: "status st \<noteq> Running \<Longrightarrow> perform es st = st"
  by (induction es arbitrary: st) (simp_all add: perform_Nil perform_Cons perform1_def)

lemma perform_no_exit:
  "status st = Running \<Longrightarrow> \<not> list_ex is_exit es \<Longrightarrow>
   perform es st = st\<lparr>trace := trace st @ es, timers := timers st @ new_timers es\<rparr>"
proof (induction es arbitrary: st)
  case Nil
  then show ?case by (simp add: perform_Nil new_timers_def)
next
  case (Cons x xs)
  then show ?case
    by (cases x) (simp_all add: perform_Cons perform1_def new_timers_def is_exit_def)
qed

lemma elem_JArr_0 [simp]: "elem (JArr (x # xs)) 0 = x"
  by (simp add: elem_def)

lemma elem_JArr_Suc [simp]: "elem (JArr (x # xs)) (Suc i) = elem (JArr xs) i"
  by (simp add: elem_def)

lemma elem_JArr_Nil [simp]: "elem (JArr []) i = Undefined"
  by (simp add: elem_def)

lemma elem_JArr_1 [simp]: "elem (JArr (x # y # xs)) 1 = y"
  by (simp add: elem_def)

lemma elem_JArr_2 [simp]: "elem (JArr (x # y # z # xs)) 2 = z"
  by (simp add: elem_def)

lemma elem_JArr_3 [simp]: "elem (JArr (x # y # z # w # xs)) 3 = w"
  by (simp add: elem_def)

lemma perform_timers_mono: "set (timers st) \<subseteq> set (timers (perform es st))"
proof (induction es arbitrary: st)
  case Nil
  then show ?case by (simp add: perform_Nil)
next
  case (Cons x xs)
  have "set (timers st) \<subseteq> set (timers (perform1 x st))"
    by (auto simp: perform1_def split: effect.splits)
  with Cons [of "perform1 x st"] show ?case
    by (auto simp: perform_Cons)
qed

lemma perform_trace_mono: "set (trace st) \<subseteq> set (trace (perform es st))"
proof (induction es arbitrary: st)
  case Nil
  then show ?case by (simp add: perform_Nil)
next
  case (Cons x xs)
  have "set (trace st) \<subseteq> set (trace (perform1 x st))"
    by (auto simp: perform1_def split: effect.splits)
  with Cons [of "perform1 x st"] show ?case
    by (auto simp: perform_Cons)
qed

lemma in_trace_perform: "x \<in> set (trace st) \<Longrightarrow> x \<in> set (trace (perform es st))"
  using perform_trace_mono [of st es] by blast

lemma in_timers_perform: "x \<in> set (timers st) \<Longrightarrow> x \<in> set (timers (perform es st))"
  using perform_timers_mono [of st es] by blast


lemma snoc_split:
  assumes "tr @ new = pre @ x # post"
  shows "(\<exists>post'. tr = pre @ x # post') \<or> (\<exists>pre'. pre = tr @ pre' \<and> new = pre' @ x # post)"
proof -
  from assms obtain us where
    "(tr = pre @ us \<and> us @ new = x # post) \<or> (tr @ us = pre \<and> new = us @ x # post)"
    by (auto simp: append_eq_append_conv2)
  then show ?thesis
  proof
    assume a: "tr = pre @ us \<and> us @ new = x # post"
    show ?thesis
    proof (cases us)
      case Nil
      with a show ?thesis by auto
    next
      case (Cons u us')
      with a show ?thesis by auto
    qed
  next
    assume "tr @ us = pre \<and> new = us @ x # post"
    then show ?thesis by auto
  qed
qed


lemma sent_append: "sent f (xs @ ys) = (sent f xs \<or> sent f ys)"
  by (auto simp: sent_def)

section \<open>Facts about delete-group.js\<close>

lemma delete_message_AUTH:
  "delete_message e now (JArr (JStr ''AUTH'' # c # rest)) =
     Inr [ConsoleLog Authenticating, WsSend (OutAuth (authEvent e now c)),
          SetTimeout 500 SendDeleteEvent]"
  by (simp add: delete_message_def)


lemma authEvent_kind_tags:
  "kind (authEvent e now c) = 22242 \<and>
   tags (authEvent e now c) = [[JStr ''relay'', JStr (relayUrl e)], [JStr ''challenge'', c]]"
  by (simp add: authEvent_def finalizeEvent_def)

lemma delete_step_stopped: "status st \<noteq> Running \<Longrightarrow> delete_step e tev st = st"
  by (simp add: delete_step_def)

lemma delete_init_Running: "status delete_init = Running"
  by (simp add: delete_init_def perform_def perform1_def)

lemma delete_init_timers: "timers delete_init = [(15000, Deadline)]"
  by (simp add: delete_init_def perform_def perform1_def)

lemma delete_run_snoc: "delete_run e (evs @ [tev]) = delete_step e tev (delete_run e evs)"
  by (simp add: delete_run_def)

lemma delete_run_Nil: "delete_run e [] = delete_init"
  by (simp add: delete_run_def)


lemma remove_timer_other: "k \<noteq> k' \<Longrightarrow> (d, k) \<in> set ts \<Longrightarrow> (d, k) \<in> set (remove_timer k' ts)"
  by (induction ts) auto



lemma delete_deadline_fires:
  assumes "status st = Running" and "armed Deadline (timers st)"
  shows "delete_step e (t, TimerFired Deadline) st =
         st\<lparr>timers := remove_timer Deadline (timers st),
            trace := trace st @ [ConsoleError Timeout, WsClose, ProcessExit 1],
            status := Exited 1\<rparr>"
  using assms
  by (simp add: delete_step_def delete_timer_def perform_Cons perform_Nil perform1_def)

lemma delete_message_other:
  "js_index r 0 = Inr t \<Longrightarrow> t \<noteq> JStr ''AUTH'' \<Longrightarrow> t \<noteq> JStr ''OK'' \<Longrightarrow>
   delete_message e now r = Inr []"
  by (simp add: delete_message_def)

lemma delete_deadline_stays:
  assumes "status st = Running \<longrightarrow> (15000, Deadline) \<in> set (timers st)"
  shows "status (delete_step e tev st) = Running \<longrightarrow>
         (15000, Deadline) \<in> set (timers (delete_step e tev st))"
proof (cases "status st = Running")
  case False
  then show ?thesis by (simp add: delete_step_stopped)
next
  case True
  with assms have d: "(15000, Deadline) \<in> set (timers st)" by simp
  show ?thesis
  proof (cases "snd tev")
    case Open
    with True d show ?thesis
      using perform_timers_mono [of st "[ConsoleLog Connected]"]
      by (auto simp: delete_step_def)
  next
    case (Message data)
    with True d show ?thesis
      using perform_timers_mono [of st]
      by (auto simp: delete_step_def split: sum.splits)
  next
    case (TimerFired k)
    show ?thesis
    proof (cases "k = Deadline")
      case True
      with TimerFired \<open>status st = Running\<close> d show ?thesis
        by (simp add: delete_step_def delete_timer_def perform_Cons perform_Nil perform1_def)
    next
      case False
      then have "(15000, Deadline) \<in> set (remove_timer k (timers st))"
        using d by (simp add: remove_timer_other)
      with TimerFired \<open>status st = Running\<close> d show ?thesis
        using perform_timers_mono
          [of "st\<lparr>timers := remove_timer k (timers st)\<rparr>" "delete_timer e k"]
        by (auto simp: delete_step_def)
    qed
  next
    case (SocketError msg)
    with True show ?thesis
      by (simp add: delete_step_def perform_Cons perform_Nil perform1_def)
  next
    case SocketClose
    with True show ?thesis
      by (simp add: delete_step_def perform_Cons perform_Nil perform1_def)
  qed
qed

lemma delete_run_deadline:
  "status (delete_run e evs) = Running \<longrightarrow> (15000, Deadline) \<in> set (timers (delete_run e evs))"
proof (induction evs rule: rev_induct)
  case Nil
  then show ?case by (simp add: delete_run_Nil delete_init_timers)
next
  case (snoc tev evs)
  then show ?case
    unfolding delete_run_snoc by (rule delete_deadline_stays)
qed

lemma delete_init_eq:
  "delete_init = \<lparr> vars = (), trace = [SetTimeout 15000 Deadline],
     timers = [(15000, Deadline)], status = Running \<rparr>"
  by (simp add: delete_init_def perform_def perform1_def)






section \<open>Facts about create-group.js\<close>

lemma create_init_Running: "status create_init = Running"
  by (simp add: create_init_def perform_def perform1_def)

lemma replace_is_filter: "replace_non_a_z_0_9 s = filter in_a_z_0_9 s"
  by (induction s) simp_all

lemma generateGroupId_eq:
  "generateGroupId now n =
     (if normalized_name n = [] then ''group'' @ toString_radix 36 now else normalized_name n)"
  by (simp add: generateGroupId_def normalized_name_def replace_is_filter toLowerCase_def
      slice0_def Let_def)

lemma normalized_name_Team_Chat: "normalized_name ''Team Chat!!'' = ''teamchat''"
  by code_simp


lemma create_message_other:
  "js_index r 0 = Inr t \<Longrightarrow> t \<noteq> JStr ''AUTH'' \<Longrightarrow> t \<noteq> JStr ''EVENT'' \<Longrightarrow>
   t \<noteq> JStr ''EOSE'' \<Longrightarrow> t \<noteq> JStr ''OK'' \<Longrightarrow>
   create_message e now r v = Inr ([], v)"
  by (simp add: create_message_def)

lemma create_init_eq:
  "create_init = \<lparr> vars = \<lparr> authenticated = False, groupExists = False \<rparr>,
     trace = [SetTimeout 15000 Deadline], timers = [(15000, Deadline)], status = Running \<rparr>"
  by (simp add: create_init_def perform_def perform1_def)

lemma create_run_snoc: "create_run e (evs @ [tev]) = create_step e tev (create_run e evs)"
  by (simp add: create_run_def)

lemma create_step_stopped: "status st \<noteq> Running \<Longrightarrow> create_step e tev st = st"
  by (simp add: create_step_def)

lemma create_deadline_stays:
  assumes "status st = Running \<longrightarrow> (15000, Deadline) \<in> set (timers st)"
  shows "status (create_step e tev st) = Running \<longrightarrow>
         (15000, Deadline) \<in> set (timers (create_step e tev st))"
proof (cases "status st = Running")
  case False
  then show ?thesis by (simp add: create_step_stopped)
next
  case True
  with assms have d: "(15000, Deadline) \<in> set (timers st)" by simp
  show ?thesis
  proof (cases "snd tev")
    case Open
    with True d show ?thesis
      using perform_timers_mono [of st "[ConsoleLog Connected]"]
      by (auto simp: create_step_def)
  next
    case (Message data)
    with True d show ?thesis
      using perform_timers_mono [of "st\<lparr>vars := v\<rparr>" for v]
      by (auto simp: create_step_def split: sum.splits)
  next
    case (TimerFired k)
    show ?thesis
    proof (cases "k = Deadline")
      case True
      with TimerFired \<open>status st = Running\<close> d show ?thesis
        by (simp add: create_step_def create_timer_def perform_Cons perform_Nil perform1_def)
    next
      case False
      then have "(15000, Deadline) \<in> set (remove_timer k (timers st))"
        using d by (simp add: remove_timer_other)
      with TimerFired \<open>status st = Running\<close> d show ?thesis
        using perform_timers_mono
          [of "st\<lparr>timers := remove_timer k (timers st)\<rparr>" "create_timer e k"]
        by (auto simp: create_step_def)
    qed
  next
    case (SocketError msg)
    with True show ?thesis
      by (simp add: create_step_def perform_Cons perform_Nil perform1_def)
  next
    case SocketClose
    with True show ?thesis
      by (simp add: create_step_def perform_Cons perform_Nil perform1_def)
  qed
qed

lemma create_run_deadline:
  "status (create_run e evs) = Running \<longrightarrow> (15000, Deadline) \<in> set (timers (create_run e evs))"
proof (induction evs rule: rev_induct)
  case Nil
  then show ?case by (simp add: create_run_def create_init_eq)
next
  case (snoc tev evs)
  then show ?case
    unfolding create_run_snoc by (rule create_deadline_stays)
qed

lemma create_deadline_fires:
  assumes "status st = Running" and "armed Deadline (timers st)"
  shows "create_step e (t, TimerFired Deadline) st =
         st\<lparr>timers := remove_timer Deadline (timers st),
            trace := trace st @ [ConsoleError Timeout, WsClose, ProcessExit 1],
            status := Exited 1\<rparr>"
  using assms
  by (simp add: create_step_def create_timer_def perform_Cons perform_Nil perform1_def)

lemma create_message_EOSE:
  "create_message e now (JArr (JStr ''EOSE'' # JStr ''check'' # rest)) v =
     Inr (WsSend (OutClose ''check'') #
          (if groupExists v
           then [ConsoleError (GroupAlreadyExists (groupId e)), WsClose]
           else [ConsoleLog SendingCreate, WsSend (OutEvent (create_signedEvent e))]),
          v)"
  by (simp add: create_message_def)

lemma create_message_Close_only_EOSE:
  assumes "create_message e now r v = Inr (es, v')" and "sent (OutClose l) es"
  shows "js_index r 0 = Inr (JStr ''EOSE'') \<and> elem r 1 = JStr ''check'' \<and> l = ''check''"
  using assms
  by (auto simp: create_message_def sent_def Let_def split: sum.splits if_splits)

lemma create_error_exits:
  assumes "status st = Running"
  shows "create_step e (t, SocketError msg) st =
         st\<lparr>trace := trace st @ [ConsoleError (WebSocketError msg), ProcessExit 1],
            status := Exited 1\<rparr>"
  using assms
  by (simp add: create_step_def perform_Cons perform_Nil perform1_def)

lemma invite_is_not_create: "inviteEvent e now \<noteq> create_signedEvent e"
proof
  assume "inviteEvent e now = create_signedEvent e"
  then have "kind (inviteEvent e now) = kind (create_signedEvent e)" by simp
  then show False
    by (simp add: inviteEvent_def create_signedEvent_def finalizeEvent_def
        NIP29_CREATE_INVITE_def NIP29_CREATE_GROUP_def)
qed

lemma create_message_facts:
  assumes "create_message e now r v = Inr (es, v')"
  shows "\<not> list_ex is_exit es"
    and "groupExists v \<Longrightarrow> groupExists v'"
    and "WsSend (OutEvent (create_signedEvent e)) \<in> set es \<Longrightarrow>
         js_index r 0 = Inr (JStr ''EOSE'') \<and> elem r 1 = JStr ''check'' \<and> \<not> groupExists v"
  using assms invite_is_not_create [of e now]
  by (auto simp: create_message_def is_exit_def Let_def split: sum.splits if_splits)

lemma create_step_adds:
  obtains new where
    "trace (create_step e tev st) = trace st @ new" and
    "WsSend (OutEvent (create_signedEvent e)) \<in> set new \<Longrightarrow>
       is_frame e ''EOSE'' ''check'' (snd tev) \<and> \<not> groupExists (vars st)" and
    "groupExists (vars st) \<Longrightarrow> groupExists (vars (create_step e tev st))"
proof (cases "status st = Running")
  case False
  then have "create_step e tev st = st" by (simp add: create_step_stopped)
  then show ?thesis using that [of "[]"] by simp
next
  case True
  show ?thesis
  proof (cases "snd tev")
    case Open
    with True have "create_step e tev st = st\<lparr>trace := trace st @ [ConsoleLog Connected]\<rparr>"
      by (simp add: create_step_def perform_Cons perform_Nil perform1_def)
    then show ?thesis using that [of "[ConsoleLog Connected]"] by simp
  next
    case (Message data)
    show ?thesis
    proof (cases "JSON_parse e (JStr data)")
      case (Inl err)
      with True Message have "create_step e tev st = st\<lparr>status := Crashed err\<rparr>"
        by (simp add: create_step_def)
      then show ?thesis using that [of "[]"] by simp
    next
      case (Inr r)
      show ?thesis
      proof (cases "create_message e (fst tev) r (vars st)")
        case (Inl err)
        with True Message \<open>JSON_parse e (JStr data) = Inr r\<close>
        have "create_step e tev st = st\<lparr>status := Crashed err\<rparr>"
          by (simp add: create_step_def)
        then show ?thesis using that [of "[]"] by simp
      next
        case (Inr p)
        obtain es v where p: "p = (es, v)" by (cases p)
        with Inr have m: "create_message e (fst tev) r (vars st) = Inr (es, v)" by simp
        from True Message \<open>JSON_parse e (JStr data) = Inr r\<close> m
        have "create_step e tev st = perform es (st\<lparr>vars := v\<rparr>)"
          by (simp add: create_step_def)
        with True create_message_facts(1) [OF m] have
          eq: "create_step e tev st =
               st\<lparr>vars := v, trace := trace st @ es, timers := timers st @ new_timers es\<rparr>"
          by (simp add: perform_no_exit)
        show ?thesis
        proof (rule that [of es])
          show "trace (create_step e tev st) = trace st @ es"
            by (simp add: eq)
          show "WsSend (OutEvent (create_signedEvent e)) \<in> set es \<Longrightarrow>
                is_frame e ''EOSE'' ''check'' (snd tev) \<and> \<not> groupExists (vars st)"
            using create_message_facts(3) [OF m] Message \<open>JSON_parse e (JStr data) = Inr r\<close>
            by (simp add: is_frame_def frame_tag_def frame_label_def)
          show "groupExists (vars st) \<Longrightarrow> groupExists (vars (create_step e tev st))"
            using create_message_facts(2) [OF m] by (simp add: eq)
        qed
      qed
    qed
  next
    case (TimerFired k)
    show ?thesis
    proof (cases "armed k (timers st)")
      case False
      with True TimerFired have "create_step e tev st = st"
        by (simp add: create_step_def)
      then show ?thesis using that [of "[]"] by simp
    next
      case a: True
      from True TimerFired a have
        eq: "create_step e tev st =
             perform (create_timer e k) (st\<lparr>timers := remove_timer k (timers st)\<rparr>)"
        by (simp add: create_step_def)
      show ?thesis
      proof (cases k)
        case SendCheckReq
        with eq True have
          "create_step e tev st =
             st\<lparr>timers := remove_timer k (timers st),
                trace := trace st @
                  [ConsoleLog CheckingExists, WsSend (OutReq ''check'' (check_filter e))]\<rparr>"
          by (simp add: create_timer_def perform_Cons perform_Nil perform1_def)
        then show ?thesis
          using that
            [of "[ConsoleLog CheckingExists, WsSend (OutReq ''check'' (check_filter e))]"]
          by simp
      next
        case Deadline
        with eq True have
          "create_step e tev st =
             st\<lparr>timers := remove_timer k (timers st),
                trace := trace st @ [ConsoleError Timeout, WsClose, ProcessExit 1],
                status := Exited 1\<rparr>"
          by (simp add: create_timer_def perform_Cons perform_Nil perform1_def)
        then show ?thesis
          using that [of "[ConsoleError Timeout, WsClose, ProcessExit 1]"] by simp
      next
        case SendDeleteEvent
        with eq True have "create_step e tev st = st\<lparr>timers := remove_timer k (timers st)\<rparr>"
          by (simp add: create_timer_def perform_Nil)
        then show ?thesis using that [of "[]"] by simp
      next
        case SendGroupsRequest
        with eq True have "create_step e tev st = st\<lparr>timers := remove_timer k (timers st)\<rparr>"
          by (simp add: create_timer_def perform_Nil)
        then show ?thesis using that [of "[]"] by simp
      qed
    qed
  next
    case (SocketError msg)
    with True have "create_step e tev st =
        st\<lparr>trace := trace st @ [ConsoleError (WebSocketError msg), ProcessExit 1],
           status := Exited 1\<rparr>"
      by (simp add: create_step_def perform_Cons perform_Nil perform1_def)
    then show ?thesis
      using that [of "[ConsoleError (WebSocketError msg), ProcessExit 1]"] by simp
  next
    case SocketClose
    with True have "create_step e tev st =
        st\<lparr>trace := trace st @ [ProcessExit 0], status := Exited 0\<rparr>"
      by (simp add: create_step_def perform_Cons perform_Nil perform1_def)
    then show ?thesis
      using that [of "[ProcessExit 0]"] by simp
  qed
qed

lemma create_step_no_eose:
  assumes "\<not> is_frame e ''EOSE'' ''check'' (snd tev)"
    and "\<not> sent (OutEvent (create_signedEvent e)) (trace st)"
  shows "\<not> sent (OutEvent (create_signedEvent e)) (trace (create_step e tev st))"
proof -
  obtain new where
    "trace (create_step e tev st) = trace st @ new" and
    "WsSend (OutEvent (create_signedEvent e)) \<in> set new \<Longrightarrow>
       is_frame e ''EOSE'' ''check'' (snd tev) \<and> \<not> groupExists (vars st)"
    by (rule create_step_adds [of e tev st]) blast
  with assms show ?thesis
    by (auto simp: sent_def)
qed

lemma create_step_exists:
  assumes "groupExists (vars st)"
    and "\<not> sent (OutEvent (create_signedEvent e)) (trace st)"
  shows "groupExists (vars (create_step e tev st)) \<and>
         \<not> sent (OutEvent (create_signedEvent e)) (trace (create_step e tev st))"
proof -
  obtain new where
    "trace (create_step e tev st) = trace st @ new" and
    "WsSend (OutEvent (create_signedEvent e)) \<in> set new \<Longrightarrow>
       is_frame e ''EOSE'' ''check'' (snd tev) \<and> \<not> groupExists (vars st)" and
    "groupExists (vars st) \<Longrightarrow> groupExists (vars (create_step e tev st))"
    by (rule create_step_adds [of e tev st]) blast
  with assms show ?thesis
    by (auto simp: sent_def)
qed

lemma create_run_no_eose:
  assumes "\<forall>tev \<in> set evs. \<not> is_frame e ''EOSE'' ''check'' (snd tev)"
  shows "\<not> sent (OutEvent (create_signedEvent e)) (trace (create_run e evs))"
  using assms
proof (induction evs rule: rev_induct)
  case Nil
  show ?case by (simp add: create_run_def create_init_eq sent_def)
next
  case (snoc tev evs)
  then have a: "\<not> is_frame e ''EOSE'' ''check'' (snd tev)"
    and b: "\<not> sent (OutEvent (create_signedEvent e)) (trace (create_run e evs))"
    by simp_all
  show ?case
    unfolding create_run_snoc by (rule create_step_no_eose [OF a b])
qed

lemma create_fold_exists:
  assumes "groupExists (vars st)"
    and "\<not> sent (OutEvent (create_signedEvent e)) (trace st)"
  shows "groupExists (vars (fold (create_step e) evs st)) \<and>
         \<not> sent (OutEvent (create_signedEvent e)) (trace (fold (create_step e) evs st))"
  using assms
proof (induction evs arbitrary: st)
  case Nil
  then show ?case by simp
next
  case (Cons tev evs)
  from create_step_exists [OF Cons.prems]
  have "groupExists (vars (create_step e tev st))"
    and "\<not> sent (OutEvent (create_signedEvent e)) (trace (create_step e tev st))"
    by simp_all
  from Cons.IH [OF this] show ?case by simp
qed

lemma create_run_append:
  "create_run e (xs @ ys) = fold (create_step e) ys (create_run e xs)"
  by (simp add: create_run_def)

lemma create_fold_running:
  "status (fold (create_step e) evs st) = Running \<Longrightarrow> status st = Running"
proof (induction evs arbitrary: st)
  case Nil
  then show ?case by simp
next
  case (Cons tev evs)
  then have "status (create_step e tev st) = Running" by simp
  then show ?case
    by (cases "status st = Running") (simp_all add: create_step_stopped)
qed

lemma create_step_EVENT_check:
  assumes "is_frame e ''EVENT'' ''check'' ev" and "status st = Running"
  shows "create_step e (t, ev) st = st\<lparr>vars := (vars st)\<lparr>groupExists := True\<rparr>\<rparr>"
proof -
  from assms(1) obtain data r where
    ev: "ev = Message data" and p: "JSON_parse e (JStr data) = Inr r" and
    i: "js_index r 0 = Inr (JStr ''EVENT'')" and l: "elem r 1 = JStr ''check''"
    by (auto simp: is_frame_def frame_tag_def frame_label_def
        split: event.splits sum.splits)
  have "create_message e t r (vars st) = Inr ([], (vars st)\<lparr>groupExists := True\<rparr>)"
    using i l by (simp add: create_message_def)
  with assms(2) ev p show ?thesis
    by (simp add: create_step_def perform_Nil)
qed

lemma create_step_EOSE_check_exists:
  assumes "is_frame e ''EOSE'' ''check'' ev" and "status st = Running"
    and "groupExists (vars st)"
  shows "create_step e (t, ev) st =
         st\<lparr>trace := trace st @
            [WsSend (OutClose ''check''), ConsoleError (GroupAlreadyExists (groupId e)),
             WsClose]\<rparr>"
proof -
  from assms(1) obtain data r where
    ev: "ev = Message data" and p: "JSON_parse e (JStr data) = Inr r" and
    i: "js_index r 0 = Inr (JStr ''EOSE'')" and l: "elem r 1 = JStr ''check''"
    by (auto simp: is_frame_def frame_tag_def frame_label_def
        split: event.splits sum.splits)
  have "create_message e t r (vars st) =
        Inr ([WsSend (OutClose ''check''), ConsoleError (GroupAlreadyExists (groupId e)),
              WsClose], vars st)"
    using i l assms(3) by (simp add: create_message_def)
  with assms(2) ev p show ?thesis
    by (simp add: create_step_def perform_Cons perform_Nil perform1_def)
qed

lemma create_step_req_first:
  assumes inv: "\<And>p q. trace st = p @ WsSend (OutEvent (create_signedEvent e)) # q \<Longrightarrow>
                  sent (OutReq ''check'' (check_filter e)) p"
    and hyp: "is_frame e ''EOSE'' ''check'' (snd tev) \<Longrightarrow>
                  sent (OutReq ''check'' (check_filter e)) (trace st)"
    and eq: "trace (create_step e tev st) = p @ WsSend (OutEvent (create_signedEvent e)) # q"
  shows "sent (OutReq ''check'' (check_filter e)) p"
proof -
  obtain new where
    t: "trace (create_step e tev st) = trace st @ new" and
    ev: "WsSend (OutEvent (create_signedEvent e)) \<in> set new \<Longrightarrow>
       is_frame e ''EOSE'' ''check'' (snd tev) \<and> \<not> groupExists (vars st)"
    by (rule create_step_adds [of e tev st]) blast
  from t eq have "trace st @ new = p @ WsSend (OutEvent (create_signedEvent e)) # q"
    by simp
  from snoc_split [OF this] show ?thesis
  proof
    assume "\<exists>post'. trace st = p @ WsSend (OutEvent (create_signedEvent e)) # post'"
    then show ?thesis using inv by blast
  next
    assume "\<exists>pre'. p = trace st @ pre' \<and>
              new = pre' @ WsSend (OutEvent (create_signedEvent e)) # q"
    then obtain pre' where p: "p = trace st @ pre'"
      and n: "new = pre' @ WsSend (OutEvent (create_signedEvent e)) # q"
      by blast
    from n have "WsSend (OutEvent (create_signedEvent e)) \<in> set new" by simp
    from ev [OF this] hyp p show ?thesis
      by (simp add: sent_append)
  qed
qed

lemma create_fold_req_first:
  assumes "answers_after_req e st evs"
    and "\<And>p q. trace st = p @ WsSend (OutEvent (create_signedEvent e)) # q \<Longrightarrow>
           sent (OutReq ''check'' (check_filter e)) p"
    and "trace (fold (create_step e) evs st) = p @ WsSend (OutEvent (create_signedEvent e)) # q"
  shows "sent (OutReq ''check'' (check_filter e)) p"
  using assms
proof (induction evs arbitrary: st)
  case Nil
  then show ?case by simp
next
  case (Cons tev evs)
  from Cons.prems(1) have
    h: "is_frame e ''EOSE'' ''check'' (snd tev) \<Longrightarrow>
        sent (OutReq ''check'' (check_filter e)) (trace st)" and
    a: "answers_after_req e (create_step e tev st) evs"
    by (simp_all split: if_splits)
  have i: "\<And>p q. trace (create_step e tev st) =
             p @ WsSend (OutEvent (create_signedEvent e)) # q \<Longrightarrow>
           sent (OutReq ''check'' (check_filter e)) p"
    by (rule create_step_req_first [OF Cons.prems(2) h])
  from Cons.prems(3) have
    "trace (fold (create_step e) evs (create_step e tev st)) =
       p @ WsSend (OutEvent (create_signedEvent e)) # q"
    by simp
  from Cons.IH [OF a i this] show ?case .
qed

lemma create_run_req_first:
  assumes "answers_after_req e create_init evs"
    and "trace (create_run e evs) = p @ WsSend (OutEvent (create_signedEvent e)) # q"
  shows "sent (OutReq ''check'' (check_filter e)) p"
proof (rule create_fold_req_first [OF assms(1)])
  show "\<And>p q. trace create_init = p @ WsSend (OutEvent (create_signedEvent e)) # q \<Longrightarrow>
           sent (OutReq ''check'' (check_filter e)) p"
    by (simp add: create_init_eq Cons_eq_append_conv)
  show "trace (fold (create_step e) evs create_init) =
          p @ WsSend (OutEvent (create_signedEvent e)) # q"
    using assms(2) by (simp add: create_run_def)
qed

lemma create_close_exits:
  assumes "status st = Running"
  shows "create_step e (t, SocketClose) st =
         st\<lparr>trace := trace st @ [ProcessExit 0], status := Exited 0\<rparr>"
  using assms
  by (simp add: create_step_def perform_Cons perform_Nil perform1_def)

lemma create_fold_stopped:
  "status st \<noteq> Running \<Longrightarrow> fold (create_step e) evs st = st"
  by (induction evs) (simp_all add: create_step_stopped)

section \<open>Facts about list-groups.js\<close>

lemma apply_tag_result:
  assumes "apply_tag (n, d, p) tag = Inr (n', d', p')"
  shows "n' = (if elem tag 0 = JStr ''name'' then elem tag 1 else n)"
    and "d' = (if elem tag 0 = JStr ''about'' then elem tag 1 else d)"
    and "p' = (if elem tag 0 = JStr ''private'' then JBool (elem tag 1 = JStr ''true'')
               else if elem tag 0 = JStr ''public'' then JBool (elem tag 1 = JStr ''false'')
               else p)"
  using assms
  by (auto simp: apply_tag_def elem_def Let_def split: sum.splits)

lemma apply_tags_name:
  "apply_tags (n, d, p) ts = Inr (n', d', p') \<Longrightarrow>
   n' = (case tag_value ''name'' ts of Some v \<Rightarrow> v | None \<Rightarrow> n)"
proof (induction ts arbitrary: n d p)
  case Nil
  then show ?case by (simp add: tag_value_def)
next
  case (Cons tag ts)
  from Cons.prems obtain n1 d1 p1 where
    1: "apply_tag (n, d, p) tag = Inr (n1, d1, p1)" and
    2: "apply_tags (n1, d1, p1) ts = Inr (n', d', p')"
    by (auto split: sum.splits)
  from Cons.IH [OF 2] apply_tag_result(1) [OF 1]
  show ?case
    by (auto simp: tag_value_def split: list.splits)
qed

lemma apply_tags_about:
  "apply_tags (n, d, p) ts = Inr (n', d', p') \<Longrightarrow>
   d' = (case tag_value ''about'' ts of Some v \<Rightarrow> v | None \<Rightarrow> d)"
proof (induction ts arbitrary: n d p)
  case Nil
  then show ?case by (simp add: tag_value_def)
next
  case (Cons tag ts)
  from Cons.prems obtain n1 d1 p1 where
    1: "apply_tag (n, d, p) tag = Inr (n1, d1, p1)" and
    2: "apply_tags (n1, d1, p1) ts = Inr (n', d', p')"
    by (auto split: sum.splits)
  from Cons.IH [OF 2] apply_tag_result(2) [OF 1]
  show ?case
    by (auto simp: tag_value_def split: list.splits)
qed

lemma apply_tags_visibility:
  "apply_tags (n, d, p) ts = Inr (n', d', p') \<Longrightarrow>
   p' = (case tag_visibility ts of Some v \<Rightarrow> v | None \<Rightarrow> p)"
proof (induction ts arbitrary: n d p)
  case Nil
  then show ?case by (simp add: tag_visibility_def)
next
  case (Cons tag ts)
  from Cons.prems obtain n1 d1 p1 where
    1: "apply_tag (n, d, p) tag = Inr (n1, d1, p1)" and
    2: "apply_tags (n1, d1, p1) ts = Inr (n', d', p')"
    by (auto split: sum.splits)
  from Cons.IH [OF 2] apply_tag_result(3) [OF 1]
  show ?case
    by (auto simp: tag_visibility_def split: list.splits)
qed

lemma group_record_fields:
  assumes "group_record e event = Inr g"
  obtains c ts n d p where
    "js_get event ''content'' = Inr c" and "js_prop event ''tags'' = JArr ts" and
    "apply_tags (content_metadata e c) ts = Inr (n, d, p)" and
    "g_name g = n" and "g_description g = d" and "g_private g = p"
  using assms
  by (auto simp: group_record_def Let_def split: sum.splits jsval.splits prod.splits)

lemma list_init_Running: "status list_init = Running"
  by (simp add: list_init_def perform_def perform1_def)

lemma list_message_other:
  "js_index r 0 = Inr t \<Longrightarrow> t \<noteq> JStr ''AUTH'' \<Longrightarrow> t \<noteq> JStr ''EVENT'' \<Longrightarrow>
   t \<noteq> JStr ''EOSE'' \<Longrightarrow> t \<noteq> JStr ''OK'' \<Longrightarrow>
   list_message e now r v = Inr ([], v)"
  by (simp add: list_message_def)

lemma list_init_eq:
  "list_init = \<lparr> vars = \<lparr> authenticatedL = False, groups = [] \<rparr>,
     trace = [SetTimeout 5000 Deadline], timers = [(5000, Deadline)], status = Running \<rparr>"
  by (simp add: list_init_def perform_def perform1_def)

lemma list_run_snoc: "list_run e (evs @ [tev]) = list_step e tev (list_run e evs)"
  by (simp add: list_run_def)

lemma list_step_stopped: "status st \<noteq> Running \<Longrightarrow> list_step e tev st = st"
  by (simp add: list_step_def)

lemma list_deadline_stays:
  assumes "status st = Running \<longrightarrow>
           (5000, Deadline) \<in> set (timers st) \<or> WsClose \<in> set (trace st)"
  shows "status (list_step e tev st) = Running \<longrightarrow>
         (5000, Deadline) \<in> set (timers (list_step e tev st)) \<or>
         WsClose \<in> set (trace (list_step e tev st))"
proof (cases "status st = Running")
  case False
  then show ?thesis by (simp add: list_step_stopped)
next
  case True
  with assms have d: "(5000, Deadline) \<in> set (timers st) \<or> WsClose \<in> set (trace st)"
    by simp
  show ?thesis
  proof (cases "snd tev")
    case Open
    with True d show ?thesis
      using perform_timers_mono [of st sendGroupsRequest]
        perform_trace_mono [of st sendGroupsRequest]
      by (auto simp: list_step_def)
  next
    case (Message data)
    with True d show ?thesis
      by (auto simp: list_step_def split: sum.splits
          intro: in_timers_perform in_trace_perform)
  next
    case (TimerFired k)
    show ?thesis
    proof (cases "k = Deadline")
      case True
      with TimerFired \<open>status st = Running\<close> d show ?thesis
        by (simp add: list_step_def list_timer_def perform_Cons perform_Nil perform1_def)
    next
      case False
      then have "(5000, Deadline) \<in> set (timers st) \<Longrightarrow>
                 (5000, Deadline) \<in> set (remove_timer k (timers st))"
        by (simp add: remove_timer_other)
      with TimerFired \<open>status st = Running\<close> d show ?thesis
        using perform_timers_mono
          [of "st\<lparr>timers := remove_timer k (timers st)\<rparr>" "list_timer (vars st) k"]
          perform_trace_mono
          [of "st\<lparr>timers := remove_timer k (timers st)\<rparr>" "list_timer (vars st) k"]
        by (auto simp: list_step_def)
    qed
  next
    case (SocketError msg)
    with True show ?thesis
      by (simp add: list_step_def perform_Cons perform_Nil perform1_def)
  next
    case SocketClose
    with True show ?thesis
      by (simp add: list_step_def perform_Cons perform_Nil perform1_def)
  qed
qed

lemma list_run_deadline:
  "status (list_run e evs) = Running \<longrightarrow>
   (5000, Deadline) \<in> set (timers (list_run e evs)) \<or> WsClose \<in> set (trace (list_run e evs))"
proof (induction evs rule: rev_induct)
  case Nil
  then show ?case by (simp add: list_run_def list_init_eq)
next
  case (snoc tev evs)
  then show ?case
    unfolding list_run_snoc by (rule list_deadline_stays)
qed

lemma list_deadline_fires:
  assumes "status st = Running" and "armed Deadline (timers st)"
  shows "list_step e (t, TimerFired Deadline) st =
         st\<lparr>timers := remove_timer Deadline (timers st),
            trace := trace st @
              (if length (groups (vars st)) = 0 then [ConsoleLog NoGroupsOrTimeout] else []) @
              [WsClose]\<rparr>"
  using assms
  by (simp add: list_step_def list_timer_def perform_Cons perform_Nil perform1_def)

lemma list_close_exits:
  assumes "status st = Running"
  shows "list_step e (t, SocketClose) st =
         st\<lparr>trace := trace st @ [ProcessExit 0], status := Exited 0\<rparr>"
  using assms
  by (simp add: list_step_def perform_Cons perform_Nil perform1_def)

lemma print_group_logs: "x \<in> set (print_group ig) \<Longrightarrow> \<exists>m. x = ConsoleLog m"
  by (cases ig) (auto simp: print_group_def)

lemma print_groups_logs: "x \<in> set (print_groups gs) \<Longrightarrow> \<exists>m. x = ConsoleLog m"
  by (auto simp: print_groups_def dest: print_group_logs split: if_splits)

lemma logs_no_exit:
  "(\<And>x. x \<in> set es \<Longrightarrow> \<exists>m. x = ConsoleLog m) \<Longrightarrow>
   \<not> list_ex is_exit es \<and> new_timers es = []"
proof (induction es)
  case Nil
  then show ?case by (simp add: new_timers_def)
next
  case (Cons x xs)
  from Cons.prems [of x] obtain m where "x = ConsoleLog m" by auto
  with Cons show ?case by (simp add: new_timers_def is_exit_def)
qed

lemma list_step_EVENT_groups:
  assumes "status st = Running"
    and "JSON_parse e (JStr data) = Inr (JArr (JStr ''EVENT'' # JStr ''groups'' # event # rest))"
  shows "list_step e (now, Message data) st =
         (case group_record e event of
            Inl err \<Rightarrow> st
          | Inr g \<Rightarrow> st\<lparr>vars := (vars st)\<lparr>groups := groups (vars st) @ [g]\<rparr>\<rparr>)"
  using assms
  by (simp add: list_step_def list_message_def perform_Nil split: sum.splits)

lemma list_step_EOSE:
  assumes "status st = Running"
    and "JSON_parse e (JStr data) = Inr (JArr (JStr ''EOSE'' # rest))"
  shows "list_step e (now, Message data) st =
         st\<lparr>trace := trace st @ print_groups (groups (vars st)) @ [WsClose]\<rparr>"
proof -
  have m: "list_message e now (JArr (JStr ''EOSE'' # rest)) (vars st) =
           Inr (print_groups (groups (vars st)) @ [WsClose], vars st)"
    by (simp add: list_message_def)
  have l: "\<not> list_ex is_exit (print_groups (groups (vars st))) \<and>
           new_timers (print_groups (groups (vars st))) = []"
    by (rule logs_no_exit) (rule print_groups_logs)
  then have "\<not> list_ex is_exit (print_groups (groups (vars st)) @ [WsClose])"
    and "new_timers (print_groups (groups (vars st)) @ [WsClose]) = []"
    by (simp_all add: is_exit_def new_timers_def)
  with assms(1) have "perform (print_groups (groups (vars st)) @ [WsClose]) st =
      st\<lparr>trace := trace st @ print_groups (groups (vars st)) @ [WsClose]\<rparr>"
    by (simp add: perform_no_exit)
  with assms m show ?thesis
    by (simp add: list_step_def)
qed

lemma print_groups_heading:
  "ConsoleLog (GroupHeading (length gs + 1) (g_name g) (truthy (g_private g)))
     \<in> set (print_groups (gs @ [g]))"
  by (simp add: print_groups_def enumerate_append_eq print_group_def)

section \<open>Facts about the example configuration\<close>

lemma sample_parse_auth:
  "JSON_parse sample_env (JStr ''[\"AUTH\",\"nonce123\"]'') =
     Inr (JArr [JStr ''AUTH'', JStr ''nonce123''])"
  by (simp add: sample_env_def sample_JSON_parse_def)

lemma sample_delete_id: "ev_id (delete_signedEvent sample_env) = ''event-id''"
  by (simp add: delete_signedEvent_def finalizeEvent_def sample_env_def sample_signer_def
      NIP29_DELETE_GROUP_def)

lemma sample_parse_rejected:
  "JSON_parse sample_env (JStr ''[\"OK\",\"event-id\",false,\"group not found\"]'') =
     Inr (JArr (JStr ''OK'' # JStr (ev_id (delete_signedEvent sample_env)) # JBool False #
               JStr ''group not found'' # []))"
  by (simp add: sample_delete_id) (simp add: sample_env_def sample_JSON_parse_def)

lemma sample_group_record:
  "group_record sample_env sample_metadata_event =
     Inr \<lparr> g_id = JStr ''unknown'', g_name = JStr ''Z'', g_description = JStr ''Y'',
           g_private = JBool False, g_created = ''2025-01-19T12:00:00.000Z'' \<rparr>"
  by (simp add: group_record_def sample_metadata_event_def js_prop_def content_metadata_def
      sample_env_def sample_JSON_parse_def sample_toISOString_def apply_tag_def js_or_def
      Let_def elem_def)

lemma sample_event_tags:
  "js_prop sample_metadata_event ''tags'' = JArr [JArr [JStr ''name'', JStr ''Z'']]"
  by (simp add: sample_metadata_event_def js_prop_def)

lemma sample_parse_notice:
  "JSON_parse sample_env (JStr ''[\"NOTICE\",\"hello\"]'') =
     Inr (JArr [JStr ''NOTICE'', JStr ''hello''])"
  by (simp add: sample_env_def sample_JSON_parse_def)

lemma sample_parse_not_json:
  "JSON_parse sample_env (JStr ''not json'') = Inl SyntaxError"
  by (simp add: sample_env_def sample_JSON_parse_def sample_groups_frame_def)

lemma sample_parse_null:
  "JSON_parse sample_env (JStr ''null'') = Inr JNull"
  by (simp add: sample_env_def sample_JSON_parse_def)

lemma sample_create_auth_step:
  "create_step sample_env (10, Message ''[\"AUTH\",\"nonce123\"]'') create_init =
     \<lparr> vars = \<lparr> authenticated = True, groupExists = False \<rparr>,
       trace = [SetTimeout 15000 Deadline, ConsoleLog Authenticating,
                WsSend (OutAuth (authEvent sample_env 10 (JStr ''nonce123''))),
                SetTimeout 300 SendCheckReq],
       timers = [(15000, Deadline), (300, SendCheckReq)], status = Running \<rparr>"
  by (simp add: create_step_def sample_parse_auth create_message_def create_init_eq
      perform_def perform1_def)

lemma sample_parse_auth_ack:
  "JSON_parse sample_env (JStr ''[\"OK\",\"auth-id\",true,\"\"]'') =
     Inr (JArr [JStr ''OK'', JStr ''auth-id'', JBool True, JStr []])"
  by (simp add: sample_env_def sample_JSON_parse_def)

lemma sample_groupId: "groupId sample_env = ''teamchat''"
  by (simp add: groupId_def sample_env_def generateGroupId_eq normalized_name_Team_Chat)

lemma sample_inviteCode: "inviteCode sample_env = Some ''abcdefghijkl''"
  by (simp add: inviteCode_def generateInviteCode_def invite_chars_def sample_env_def upt_rec)

lemma sample_create_id: "ev_id (create_signedEvent sample_env) = ''event-id''"
  by (simp add: create_signedEvent_def finalizeEvent_def sample_env_def sample_signer_def
      NIP29_CREATE_GROUP_def)

lemma sample_auth_id: "ev_id (authEvent sample_env now c) = ''auth-id''"
  by (simp add: authEvent_def finalizeEvent_def sample_env_def sample_signer_def)

lemma sample_misc: "isPrivate sample_env" "sphereUrl sample_env = ''http://localhost:5173''"
  by (simp_all add: sample_env_def)




lemma sample_parse_event_check:
  "JSON_parse sample_env (JStr ''[\"EVENT\",\"check\",{}]'') =
     Inr (JArr [JStr ''EVENT'', JStr ''check'', JObj []])"
  by (simp add: sample_env_def sample_JSON_parse_def)

lemma sample_parse_eose_check:
  "JSON_parse sample_env (JStr ''[\"EOSE\",\"check\"]'') =
     Inr (JArr [JStr ''EOSE'', JStr ''check''])"
  by (simp add: sample_env_def sample_JSON_parse_def)

lemma sample_tag_auth:
  "frame_tag sample_env (Message ''[\"AUTH\",\"nonce123\"]'') = Some (JStr ''AUTH'')"
  by (simp add: frame_tag_def sample_parse_auth)

lemma sample_create_check_run:
  "create_run sample_env
     [(10, Message ''[\"AUTH\",\"nonce123\"]''), (310, TimerFired SendCheckReq)] =
   \<lparr> vars = \<lparr> authenticated = True, groupExists = False \<rparr>,
     trace = [SetTimeout 15000 Deadline, ConsoleLog Authenticating,
              WsSend (OutAuth (authEvent sample_env 10 (JStr ''nonce123''))),
              SetTimeout 300 SendCheckReq,
              ConsoleLog CheckingExists, WsSend (OutReq ''check'' (check_filter sample_env))],
     timers = [(15000, Deadline)], status = Running \<rparr>"
  by (simp add: create_run_def sample_create_auth_step)
     (simp add: create_step_def create_timer_def armed_def perform_def perform1_def)

lemma sample_create_found_run:
  "create_run sample_env
     ([(10, Message ''[\"AUTH\",\"nonce123\"]''), (310, TimerFired SendCheckReq)] @
      (320, Message ''[\"EVENT\",\"check\",{}]'') # []) =
   \<lparr> vars = \<lparr> authenticated = True, groupExists = True \<rparr>,
     trace = [SetTimeout 15000 Deadline, ConsoleLog Authenticating,
              WsSend (OutAuth (authEvent sample_env 10 (JStr ''nonce123''))),
              SetTimeout 300 SendCheckReq,
              ConsoleLog CheckingExists, WsSend (OutReq ''check'' (check_filter sample_env))],
     timers = [(15000, Deadline)], status = Running \<rparr>"
  by (simp only: create_run_append sample_create_check_run)
     (simp add: create_step_def sample_parse_event_check create_message_def perform_def)

lemma sample_create_absent_run:
  "create_run sample_env
     ([(10, Message ''[\"AUTH\",\"nonce123\"]''), (310, TimerFired SendCheckReq)] @
      [(330, Message ''[\"EOSE\",\"check\"]'')]) =
   \<lparr> vars = \<lparr> authenticated = True, groupExists = False \<rparr>,
     trace = [SetTimeout 15000 Deadline, ConsoleLog Authenticating,
              WsSend (OutAuth (authEvent sample_env 10 (JStr ''nonce123''))),
              SetTimeout 300 SendCheckReq,
              ConsoleLog CheckingExists, WsSend (OutReq ''check'' (check_filter sample_env)),
              WsSend (OutClose ''check''), ConsoleLog SendingCreate,
              WsSend (OutEvent (create_signedEvent sample_env))],
     timers = [(15000, Deadline)], status = Running \<rparr>"
  by (simp only: create_run_append sample_create_check_run)
     (simp add: create_step_def sample_parse_eose_check create_message_def perform_def
        perform1_def)

lemma sample_answers_after_req:
  "answers_after_req sample_env create_init
     [(10, Message ''[\"AUTH\",\"nonce123\"]''), (310, TimerFired SendCheckReq),
      (330, Message ''[\"EOSE\",\"check\"]'')]"
proof -
  have n1: "\<not> is_frame sample_env ''EOSE'' ''check'' (Message ''[\"AUTH\",\"nonce123\"]'')"
    by (simp add: is_frame_def sample_tag_auth)
  have n2: "\<not> is_frame sample_env ''EOSE'' ''check'' (TimerFired SendCheckReq)"
    by (simp add: is_frame_def frame_tag_def)
  have s: "create_step sample_env (310, TimerFired SendCheckReq)
             (create_step sample_env (10, Message ''[\"AUTH\",\"nonce123\"]'') create_init) =
           create_run sample_env
             [(10, Message ''[\"AUTH\",\"nonce123\"]''), (310, TimerFired SendCheckReq)]"
    by (simp add: create_run_def)
  show ?thesis
    by (simp add: n1 n2 s sample_create_check_run sent_def)
qed

lemma sample_parse_groups_frame:
  "JSON_parse sample_env (JStr sample_groups_frame) =
     Inr (JArr (JStr ''EVENT'' # JStr ''groups'' # sample_metadata_event # []))"
  by (simp add: sample_env_def sample_JSON_parse_def sample_groups_frame_def)

lemma sample_parse_eose_groups:
  "JSON_parse sample_env (JStr ''[\"EOSE\",\"groups\"]'') =
     Inr (JArr (JStr ''EOSE'' # [JStr ''groups'']))"
  by (simp add: sample_env_def sample_JSON_parse_def)

lemma sample_list_request_run:
  "list_run sample_env
     [(10, Message ''[\"AUTH\",\"nonce123\"]''), (310, TimerFired SendGroupsRequest)] =
   \<lparr> vars = \<lparr> authenticatedL = True, groups = [] \<rparr>,
     trace = [SetTimeout 5000 Deadline, ConsoleLog Authenticating,
              WsSend (OutAuth (authEvent sample_env 10 (JStr ''nonce123''))),
              SetTimeout 300 SendGroupsRequest,
              WsSend (OutReq ''groups'' groups_filter)],
     timers = [(5000, Deadline)], status = Running \<rparr>"
proof -
  have k: "haveKey sample_env" by (simp add: sample_env_def)
  show ?thesis
    by (simp add: list_run_def list_init_eq list_step_def sample_parse_auth
      list_message_def k list_timer_def sendGroupsRequest_def armed_def perform_def
      perform1_def)
qed

lemma sample_content_metadata:
  "content_metadata sample_env (JStr ''{\"name\":\"X\",\"about\":\"Y\"}'') =
     (JStr ''X'', JStr ''Y'', JBool False)"
  by (simp add: content_metadata_def sample_env_def sample_JSON_parse_def js_or_def js_prop_def)

lemma sample_print_groups:
  "print_groups
     [\<lparr> g_id = JStr ''unknown'', g_name = JStr ''Z'', g_description = JStr ''Y'',
         g_private = JBool False, g_created = ''2025-01-19T12:00:00.000Z'' \<rparr>] =
   [ConsoleLog (FoundGroups 1), ConsoleLog (GroupHeading 1 (JStr ''Z'') False),
    ConsoleLog (GroupId (JStr ''unknown'')), ConsoleLog (GroupDescription (JStr ''Y'')),
    ConsoleLog (GroupCreatedAt ''2025-01-19T12:00:00.000Z''), ConsoleLog Blank]"
  by (simp add: print_groups_def print_group_def enumerate_eq_zip)

lemma sample_event_content:
  "js_get sample_metadata_event ''content'' = Inr (JStr ''{\"name\":\"X\",\"about\":\"Y\"}'')"
  by (simp add: sample_metadata_event_def)

lemma sample_event_created:
  "toISOString sample_env (js_prop sample_metadata_event ''created_at'') =
     Inr ''2025-01-19T12:00:00.000Z''"
  by (simp add: sample_metadata_event_def js_prop_def sample_env_def
      sample_toISOString_def)

lemma sample_create_unsolicited_run:
  "create_run sample_env [(5, Message ''[\"EOSE\",\"check\"]'')] =
   \<lparr> vars = \<lparr> authenticated = False, groupExists = False \<rparr>,
     trace = [SetTimeout 15000 Deadline, WsSend (OutClose ''check''),
              ConsoleLog SendingCreate, WsSend (OutEvent (create_signedEvent sample_env))],
     timers = [(15000, Deadline)], status = Running \<rparr>"
  by (simp add: create_run_def create_init_eq create_step_def sample_parse_eose_check
      create_message_def perform_def perform1_def)

lemma sample_create_late_challenge_run:
  "create_run sample_env
     (([(10, Message ''[\"AUTH\",\"nonce123\"]''), (310, TimerFired SendCheckReq)] @
       (320, Message ''[\"EVENT\",\"check\",{}]'') # []) @
      [(330, Message ''[\"EOSE\",\"check\"]''), (335, Message ''[\"AUTH\",\"nonce123\"]'')]) =
   \<lparr> vars = \<lparr> authenticated = True, groupExists = True \<rparr>,
     trace = [SetTimeout 15000 Deadline, ConsoleLog Authenticating,
              WsSend (OutAuth (authEvent sample_env 10 (JStr ''nonce123''))),
              SetTimeout 300 SendCheckReq,
              ConsoleLog CheckingExists, WsSend (OutReq ''check'' (check_filter sample_env)),
              WsSend (OutClose ''check''), ConsoleError (GroupAlreadyExists ''teamchat''),
              WsClose, ConsoleLog Authenticating,
              WsSend (OutAuth (authEvent sample_env 335 (JStr ''nonce123''))),
              SetTimeout 300 SendCheckReq],
     timers = [(15000, Deadline), (300, SendCheckReq)], status = Running \<rparr>"
  by (simp only: create_run_append [of _ "_ @ _"] sample_create_found_run)
     (simp add: create_step_def sample_parse_eose_check sample_parse_auth create_message_def
        sample_groupId perform_def perform1_def)

section \<open>The claims\<close>

text \<open>
  Claim C1. Whenever delete-group.js or create-group.js, still running, receives an
  \<^verbatim>\<open>AUTH\<close> frame with a challenge string, the calls it makes in reply contain exactly
  one \<^verbatim>\<open>ws.send\<close> of an \<^verbatim>\<open>AUTH\<close> frame; the event in it has kind 22242 and the tag
  list \<^verbatim>\<open>[["relay", relayUrl], ["challenge", challenge]]\<close>: the relay address as it was
  dialed first, the challenge as it was received second.
\<close>

theorem auth_challenge_answered:
  assumes "status st = Running" and "status st' = Running"
    and "JSON_parse e (JStr data) = Inr (JArr (JStr ''AUTH'' # JStr c # rest))"
  shows "(\<exists>new. trace (delete_step e (now, Message data) st) = trace st @ new \<and>
            map (\<lambda>ev. (kind ev, tags ev)) (auth_submits new) =
              [(22242, [[JStr ''relay'', JStr (relayUrl e)], [JStr ''challenge'', JStr c]])]) \<and>
         (\<exists>new. trace (create_step e (now, Message data) st') = trace st' @ new \<and>
            map (\<lambda>ev. (kind ev, tags ev)) (auth_submits new) =
              [(22242, [[JStr ''relay'', JStr (relayUrl e)], [JStr ''challenge'', JStr c]])])"
proof (rule conjI)
  let ?es = "[ConsoleLog Authenticating, WsSend (OutAuth (authEvent e now (JStr c))),
              SetTimeout 500 SendDeleteEvent]"
  have "delete_step e (now, Message data) st = perform ?es st"
    using assms by (simp add: delete_step_def delete_message_AUTH)
  then have t: "trace (delete_step e (now, Message data) st) = trace st @ ?es"
    using assms(1) by (simp add: perform_no_exit is_exit_def)
  have m: "map (\<lambda>ev. (kind ev, tags ev)) (auth_submits ?es) =
      [(22242, [[JStr ''relay'', JStr (relayUrl e)], [JStr ''challenge'', JStr c]])]"
    by (simp add: auth_submits_def authEvent_kind_tags)
  show "\<exists>new. trace (delete_step e (now, Message data) st) = trace st @ new \<and>
            map (\<lambda>ev. (kind ev, tags ev)) (auth_submits new) =
              [(22242, [[JStr ''relay'', JStr (relayUrl e)], [JStr ''challenge'', JStr c]])]"
    by (rule exI [where x = ?es]) (rule conjI [OF t m])
next
  let ?es = "[ConsoleLog Authenticating, WsSend (OutAuth (authEvent e now (JStr c))),
              SetTimeout 300 SendCheckReq]"
  have "create_step e (now, Message data) st' =
          perform ?es (st'\<lparr>vars := (vars st')\<lparr>authenticated := True\<rparr>\<rparr>)"
    using assms by (simp add: create_step_def create_message_def)
  then have t: "trace (create_step e (now, Message data) st') = trace st' @ ?es"
    using assms(2) by (simp add: perform_no_exit is_exit_def)
  have m: "map (\<lambda>ev. (kind ev, tags ev)) (auth_submits ?es) =
      [(22242, [[JStr ''relay'', JStr (relayUrl e)], [JStr ''challenge'', JStr c]])]"
    by (simp add: auth_submits_def authEvent_kind_tags)
  show "\<exists>new. trace (create_step e (now, Message data) st') = trace st' @ new \<and>
            map (\<lambda>ev. (kind ev, tags ev)) (auth_submits new) =
              [(22242, [[JStr ''relay'', JStr (relayUrl e)], [JStr ''challenge'', JStr c]])]"
    by (rule exI [where x = ?es]) (rule conjI [OF t m])
qed

text \<open>
  The scenario of the specification: \<^verbatim>\<open>["AUTH","nonce123"]\<close> just after the start.
\<close>

theorem auth_challenge_answered_witness:
  "status delete_init = Running \<and> status create_init = Running \<and>
   JSON_parse sample_env (JStr ''[\"AUTH\",\"nonce123\"]'') =
     Inr (JArr (JStr ''AUTH'' # JStr ''nonce123'' # [])) \<and>
   (\<exists>new. trace (delete_step sample_env (10, Message ''[\"AUTH\",\"nonce123\"]'') delete_init) =
             trace delete_init @ new \<and>
          map (\<lambda>ev. (kind ev, tags ev)) (auth_submits new) =
            [(22242, [[JStr ''relay'', JStr ''ws://localhost:3334''],
                      [JStr ''challenge'', JStr ''nonce123'']])]) \<and>
   (\<exists>new. trace (create_step sample_env (10, Message ''[\"AUTH\",\"nonce123\"]'') create_init) =
             trace create_init @ new \<and>
          map (\<lambda>ev. (kind ev, tags ev)) (auth_submits new) =
            [(22242, [[JStr ''relay'', JStr ''ws://localhost:3334''],
                      [JStr ''challenge'', JStr ''nonce123'']])])"
proof -
  have r: "relayUrl sample_env = ''ws://localhost:3334''"
    by (simp add: sample_env_def)
  show ?thesis
    using auth_challenge_answered [OF delete_init_Running create_init_Running sample_parse_auth,
        of 10]
    by (simp only: r delete_init_Running create_init_Running sample_parse_auth simp_thms)
qed

text \<open>
  Claim C2, as amended. create-group.js sends \<^verbatim>\<open>["REQ","check",{kinds:[39000],"#d":[groupId]}]\<close>,
  with the normalized identifier, from the timer that its \<^verbatim>\<open>AUTH\<close> branch arms 300 ms
  after a challenge. It never submits the create event before an \<^verbatim>\<open>EOSE\<close> frame for
  \<^verbatim>\<open>check\<close> has arrived; so with a relay that sends that frame only in answer to the
  \<^verbatim>\<open>REQ\<close>, the \<^verbatim>\<open>REQ\<close> goes out before the create event (the last part of the
  theorem). When an \<^verbatim>\<open>EVENT\<close> frame for \<^verbatim>\<open>check\<close> arrives before the first such
  \<^verbatim>\<open>EOSE\<close>, the script, on the \<^verbatim>\<open>EOSE\<close>, sends the \<^verbatim>\<open>CLOSE\<close> that ends the check,
  reports that the group already exists and calls \<^verbatim>\<open>ws.close()\<close>, that \<^verbatim>\<open>CLOSE\<close> being
  the only frame the handler sends; the create event is not submitted then or at any later
  point of the run; and when the close signal is the next event, the process exits with
  status 0 and nothing more is sent, whatever comes later.
\<close>

theorem create_checks_first:
  "create_message e now (JArr (JStr ''AUTH'' # JStr c # rest)) v =
     Inr ([ConsoleLog Authenticating, WsSend (OutAuth (authEvent e now (JStr c))),
           SetTimeout 300 SendCheckReq],
          v\<lparr>authenticated := True\<rparr>) \<and>
   create_timer e SendCheckReq =
     [ConsoleLog CheckingExists,
      WsSend (OutReq ''check''
        \<lparr> kinds = [39000], tag_d = Some [generateGroupId (idTime e) (argName e)] \<rparr>)] \<and>
   ((\<forall>tev \<in> set evs. \<not> is_frame e ''EOSE'' ''check'' (snd tev)) \<longrightarrow>
      \<not> sent (OutEvent (create_signedEvent e)) (trace (create_run e evs))) \<and>
   ((\<forall>tev \<in> set pre. \<not> is_frame e ''EOSE'' ''check'' (snd tev)) \<and>
    is_frame e ''EVENT'' ''check'' ev1 \<and> is_frame e ''EOSE'' ''check'' ev2 \<and>
    status (create_run e (pre @ (t1, ev1) # mid)) = Running \<longrightarrow>
      create_run e (pre @ (t1, ev1) # mid @ [(t2, ev2)]) =
        (create_run e (pre @ (t1, ev1) # mid))
          \<lparr>trace := trace (create_run e (pre @ (t1, ev1) # mid)) @
             [WsSend (OutClose ''check''), ConsoleError (GroupAlreadyExists (groupId e)),
              WsClose]\<rparr> \<and>
      \<not> sent (OutEvent (create_signedEvent e))
          (trace (create_run e (pre @ (t1, ev1) # mid @ (t2, ev2) # post))) \<and>
      create_run e (pre @ (t1, ev1) # mid @ (t2, ev2) # (t3, SocketClose) # later) =
        (create_run e (pre @ (t1, ev1) # mid))
          \<lparr>trace := trace (create_run e (pre @ (t1, ev1) # mid)) @
             [WsSend (OutClose ''check''), ConsoleError (GroupAlreadyExists (groupId e)),
              WsClose, ProcessExit 0],
           status := Exited 0\<rparr>) \<and>
   (answers_after_req e create_init evs2 \<and>
    trace (create_run e evs2) = p @ WsSend (OutEvent (create_signedEvent e)) # q \<longrightarrow>
      sent (OutReq ''check'' (check_filter e)) p)"
proof (intro conjI impI)
  show "create_message e now (JArr (JStr ''AUTH'' # JStr c # rest)) v =
     Inr ([ConsoleLog Authenticating, WsSend (OutAuth (authEvent e now (JStr c))),
           SetTimeout 300 SendCheckReq],
          v\<lparr>authenticated := True\<rparr>)"
    by (simp add: create_message_def)
  show "create_timer e SendCheckReq =
     [ConsoleLog CheckingExists,
      WsSend (OutReq ''check''
        \<lparr> kinds = [39000], tag_d = Some [generateGroupId (idTime e) (argName e)] \<rparr>)]"
    by (simp add: create_timer_def check_filter_def groupId_def)
next
  assume "\<forall>tev \<in> set evs. \<not> is_frame e ''EOSE'' ''check'' (snd tev)"
  then show "\<not> sent (OutEvent (create_signedEvent e)) (trace (create_run e evs))"
    by (rule create_run_no_eose)
next
  assume a: "(\<forall>tev \<in> set pre. \<not> is_frame e ''EOSE'' ''check'' (snd tev)) \<and>
    is_frame e ''EVENT'' ''check'' ev1 \<and> is_frame e ''EOSE'' ''check'' ev2 \<and>
    status (create_run e (pre @ (t1, ev1) # mid)) = Running"
  let ?s0 = "create_run e pre"
  let ?s1 = "create_step e (t1, ev1) ?s0"
  let ?s2 = "create_run e (pre @ (t1, ev1) # mid)"
  have s2: "?s2 = fold (create_step e) mid ?s1"
    by (simp add: create_run_def)
  from a have r2: "status ?s2 = Running" by simp
  then have r1: "status ?s1 = Running"
    unfolding s2 by (rule create_fold_running)
  then have r0: "status ?s0 = Running"
    by (cases "status ?s0 = Running") (simp_all add: create_step_stopped)
  from a have n0: "\<not> sent (OutEvent (create_signedEvent e)) (trace ?s0)"
    by (simp add: create_run_no_eose)
  from a r0 have e1: "?s1 = ?s0\<lparr>vars := (vars ?s0)\<lparr>groupExists := True\<rparr>\<rparr>"
    by (simp add: create_step_EVENT_check)
  then have g1: "groupExists (vars ?s1)"
    and n1: "\<not> sent (OutEvent (create_signedEvent e)) (trace ?s1)"
    using n0 by simp_all
  from create_fold_exists [OF g1 n1, of mid]
  have g2: "groupExists (vars ?s2)" by (simp add: s2)
  from a have f2: "is_frame e ''EOSE'' ''check'' ev2" by simp
  have "create_run e (pre @ (t1, ev1) # mid @ [(t2, ev2)]) = create_step e (t2, ev2) ?s2"
    by (simp add: create_run_def)
  then show "create_run e (pre @ (t1, ev1) # mid @ [(t2, ev2)]) =
        ?s2\<lparr>trace := trace ?s2 @
             [WsSend (OutClose ''check''), ConsoleError (GroupAlreadyExists (groupId e)),
              WsClose]\<rparr>"
    by (simp only: create_step_EOSE_check_exists [OF f2 r2 g2])
  have "create_run e (pre @ (t1, ev1) # mid @ (t2, ev2) # post) =
        fold (create_step e) (mid @ (t2, ev2) # post) ?s1"
    by (simp add: create_run_def)
  with create_fold_exists [OF g1 n1, of "mid @ (t2, ev2) # post"]
  show "\<not> sent (OutEvent (create_signedEvent e))
          (trace (create_run e (pre @ (t1, ev1) # mid @ (t2, ev2) # post)))"
    by simp
  let ?s3 = "?s2\<lparr>trace := trace ?s2 @
             [WsSend (OutClose ''check''), ConsoleError (GroupAlreadyExists (groupId e)),
              WsClose]\<rparr>"
  let ?s4 = "?s3\<lparr>trace := trace ?s3 @ [ProcessExit 0], status := Exited 0\<rparr>"
  from r2 have r3: "status ?s3 = Running" by simp
  have x: "status ?s4 \<noteq> Running" by simp
  have "create_run e (pre @ (t1, ev1) # mid @ (t2, ev2) # (t3, SocketClose) # later) =
        fold (create_step e) later
          (create_step e (t3, SocketClose) (create_step e (t2, ev2) ?s2))"
    by (simp add: create_run_def)
  also have "\<dots> = fold (create_step e) later ?s4"
    by (simp only: create_step_EOSE_check_exists [OF f2 r2 g2] create_close_exits [OF r3])
  also have "\<dots> = ?s4"
    by (rule create_fold_stopped [OF x])
  finally show "create_run e
          (pre @ (t1, ev1) # mid @ (t2, ev2) # (t3, SocketClose) # later) =
        ?s2\<lparr>trace := trace ?s2 @
             [WsSend (OutClose ''check''), ConsoleError (GroupAlreadyExists (groupId e)),
              WsClose, ProcessExit 0],
           status := Exited 0\<rparr>"
    by simp
next
  assume "answers_after_req e create_init evs2 \<and>
    trace (create_run e evs2) = p @ WsSend (OutEvent (create_signedEvent e)) # q"
  then show "sent (OutReq ''check'' (check_filter e)) p"
    using create_run_req_first [of e evs2 p q] by simp
qed

text \<open>
  The run challenge, \<^verbatim>\<open>REQ\<close>, one stored event, \<^verbatim>\<open>EOSE\<close>, close signal; and the run
  challenge, \<^verbatim>\<open>REQ\<close>, \<^verbatim>\<open>EOSE\<close>, in which the create event follows the \<^verbatim>\<open>REQ\<close>.
\<close>

theorem create_checks_first_witness:
  "\<not> is_frame sample_env ''EOSE'' ''check'' (Message ''[\"AUTH\",\"nonce123\"]'') \<and>
   \<not> is_frame sample_env ''EOSE'' ''check'' (TimerFired SendCheckReq) \<and>
   \<not> sent (OutEvent (create_signedEvent sample_env))
       (trace (create_run sample_env
          [(10, Message ''[\"AUTH\",\"nonce123\"]''), (310, TimerFired SendCheckReq)])) \<and>
   is_frame sample_env ''EVENT'' ''check'' (Message ''[\"EVENT\",\"check\",{}]'') \<and>
   is_frame sample_env ''EOSE'' ''check'' (Message ''[\"EOSE\",\"check\"]'') \<and>
   status (create_run sample_env
     ([(10, Message ''[\"AUTH\",\"nonce123\"]''), (310, TimerFired SendCheckReq)] @
      (320, Message ''[\"EVENT\",\"check\",{}]'') # [])) = Running \<and>
   create_run sample_env
     ([(10, Message ''[\"AUTH\",\"nonce123\"]''), (310, TimerFired SendCheckReq)] @
      (320, Message ''[\"EVENT\",\"check\",{}]'') # [] @
      [(330, Message ''[\"EOSE\",\"check\"]'')]) =
     (create_run sample_env
        ([(10, Message ''[\"AUTH\",\"nonce123\"]''), (310, TimerFired SendCheckReq)] @
         (320, Message ''[\"EVENT\",\"check\",{}]'') # []))
       \<lparr>trace := trace (create_run sample_env
            ([(10, Message ''[\"AUTH\",\"nonce123\"]''), (310, TimerFired SendCheckReq)] @
             (320, Message ''[\"EVENT\",\"check\",{}]'') # [])) @
          [WsSend (OutClose ''check''),
           ConsoleError (GroupAlreadyExists (groupId sample_env)), WsClose]\<rparr> \<and>
   \<not> sent (OutEvent (create_signedEvent sample_env))
       (trace (create_run sample_env
          ([(10, Message ''[\"AUTH\",\"nonce123\"]''), (310, TimerFired SendCheckReq)] @
           (320, Message ''[\"EVENT\",\"check\",{}]'') # [] @
           (330, Message ''[\"EOSE\",\"check\"]'') # [(340, SocketClose)]))) \<and>
   create_run sample_env
     ([(10, Message ''[\"AUTH\",\"nonce123\"]''), (310, TimerFired SendCheckReq)] @
      (320, Message ''[\"EVENT\",\"check\",{}]'') # [] @
      (330, Message ''[\"EOSE\",\"check\"]'') # (340, SocketClose) # []) =
     (create_run sample_env
        ([(10, Message ''[\"AUTH\",\"nonce123\"]''), (310, TimerFired SendCheckReq)] @
         (320, Message ''[\"EVENT\",\"check\",{}]'') # []))
       \<lparr>trace := trace (create_run sample_env
            ([(10, Message ''[\"AUTH\",\"nonce123\"]''), (310, TimerFired SendCheckReq)] @
             (320, Message ''[\"EVENT\",\"check\",{}]'') # [])) @
          [WsSend (OutClose ''check''),
           ConsoleError (GroupAlreadyExists (groupId sample_env)), WsClose, ProcessExit 0],
        status := Exited 0\<rparr> \<and>
   answers_after_req sample_env create_init
     [(10, Message ''[\"AUTH\",\"nonce123\"]''), (310, TimerFired SendCheckReq),
      (330, Message ''[\"EOSE\",\"check\"]'')] \<and>
   trace (create_run sample_env
     [(10, Message ''[\"AUTH\",\"nonce123\"]''), (310, TimerFired SendCheckReq),
      (330, Message ''[\"EOSE\",\"check\"]'')]) =
     [SetTimeout 15000 Deadline, ConsoleLog Authenticating,
      WsSend (OutAuth (authEvent sample_env 10 (JStr ''nonce123''))),
      SetTimeout 300 SendCheckReq,
      ConsoleLog CheckingExists, WsSend (OutReq ''check'' (check_filter sample_env)),
      WsSend (OutClose ''check''), ConsoleLog SendingCreate] @
     WsSend (OutEvent (create_signedEvent sample_env)) # [] \<and>
   sent (OutReq ''check'' (check_filter sample_env))
     [SetTimeout 15000 Deadline, ConsoleLog Authenticating,
      WsSend (OutAuth (authEvent sample_env 10 (JStr ''nonce123''))),
      SetTimeout 300 SendCheckReq,
      ConsoleLog CheckingExists, WsSend (OutReq ''check'' (check_filter sample_env)),
      WsSend (OutClose ''check''), ConsoleLog SendingCreate]"
proof -
  let ?pre = "[(10, Message ''[\"AUTH\",\"nonce123\"]''), (310, TimerFired SendCheckReq)]"
  let ?absent = "[(10, Message ''[\"AUTH\",\"nonce123\"]''), (310, TimerFired SendCheckReq),
      (330, Message ''[\"EOSE\",\"check\"]'')]"
  let ?p = "[SetTimeout 15000 Deadline, ConsoleLog Authenticating,
      WsSend (OutAuth (authEvent sample_env 10 (JStr ''nonce123''))),
      SetTimeout 300 SendCheckReq,
      ConsoleLog CheckingExists, WsSend (OutReq ''check'' (check_filter sample_env)),
      WsSend (OutClose ''check''), ConsoleLog SendingCreate]"
  note T = create_checks_first
    [where e = sample_env and evs = ?pre and pre = ?pre
       and ?ev1.0 = "Message ''[\"EVENT\",\"check\",{}]''"
       and ?ev2.0 = "Message ''[\"EOSE\",\"check\"]''"
       and ?t1.0 = 320 and mid = "[]" and ?t2.0 = 330 and post = "[(340, SocketClose)]"
       and ?t3.0 = 340 and later = "[]"
       and ?evs2.0 = ?absent and p = ?p and q = "[]"]
  have n1: "\<not> is_frame sample_env ''EOSE'' ''check'' (Message ''[\"AUTH\",\"nonce123\"]'')"
    by (simp add: is_frame_def sample_tag_auth)
  have n2: "\<not> is_frame sample_env ''EOSE'' ''check'' (TimerFired SendCheckReq)"
    by (simp add: is_frame_def frame_tag_def)
  have b: "\<forall>tev \<in> set ?pre. \<not> is_frame sample_env ''EOSE'' ''check'' (snd tev)"
    using n1 n2 by simp
  have f1: "is_frame sample_env ''EVENT'' ''check'' (Message ''[\"EVENT\",\"check\",{}]'')"
    by (simp add: is_frame_def frame_tag_def frame_label_def sample_parse_event_check)
  have f2: "is_frame sample_env ''EOSE'' ''check'' (Message ''[\"EOSE\",\"check\"]'')"
    by (simp add: is_frame_def frame_tag_def frame_label_def sample_parse_eose_check)
  have r: "status (create_run sample_env
     (?pre @ (320, Message ''[\"EVENT\",\"check\",{}]'') # [])) = Running"
    by (simp only: sample_create_found_run) simp
  have tr: "trace (create_run sample_env ?absent) =
            ?p @ WsSend (OutEvent (create_signedEvent sample_env)) # []"
    using sample_create_absent_run by simp
  note A = T [THEN conjunct2, THEN conjunct2, THEN conjunct1, THEN mp, OF b]
  note B = T [THEN conjunct2, THEN conjunct2, THEN conjunct2, THEN conjunct1, THEN mp,
      OF conjI [OF b conjI [OF f1 conjI [OF f2 r]]]]
  note C = T [THEN conjunct2, THEN conjunct2, THEN conjunct2, THEN conjunct2, THEN mp,
      OF conjI [OF sample_answers_after_req tr]]
  show ?thesis
    by (intro conjI n1 n2 A f1 f2 r B [THEN conjunct1] B [THEN conjunct2, THEN conjunct1]
        B [THEN conjunct2, THEN conjunct2] sample_answers_after_req tr C)
qed

text \<open>
  Claim C2 as stated fails. The \<^verbatim>\<open>EOSE\<close> branch tests the label and \<^verbatim>\<open>groupExists\<close>
  only (\<^verbatim>\<open>authenticated\<close> is assigned and never read): in the run whose first event is
  an \<^verbatim>\<open>EOSE\<close> frame for \<^verbatim>\<open>check\<close>, the create event is submitted with no \<^verbatim>\<open>REQ\<close> and
  no \<^verbatim>\<open>AUTH\<close> frame before it. And the handlers stay registered after the report that
  the group exists: a challenge that arrives before the close signal is answered with
  another call of \<^verbatim>\<open>ws.send\<close>, and arms the timer of the \<^verbatim>\<open>REQ\<close> again.
\<close>

theorem unsolicited_eose_submits_create:
  "trace (create_run sample_env [(5, Message ''[\"EOSE\",\"check\"]'')]) =
     [SetTimeout 15000 Deadline, WsSend (OutClose ''check''),
      ConsoleLog SendingCreate, WsSend (OutEvent (create_signedEvent sample_env))] \<and>
   \<not> sent (OutReq ''check'' (check_filter sample_env))
       (trace (create_run sample_env [(5, Message ''[\"EOSE\",\"check\"]'')])) \<and>
   \<not> auth_sent (trace (create_run sample_env [(5, Message ''[\"EOSE\",\"check\"]'')])) \<and>
   trace (create_run sample_env
     [(10, Message ''[\"AUTH\",\"nonce123\"]''), (310, TimerFired SendCheckReq),
      (320, Message ''[\"EVENT\",\"check\",{}]''), (330, Message ''[\"EOSE\",\"check\"]''),
      (335, Message ''[\"AUTH\",\"nonce123\"]'')]) =
     [SetTimeout 15000 Deadline, ConsoleLog Authenticating,
      WsSend (OutAuth (authEvent sample_env 10 (JStr ''nonce123''))),
      SetTimeout 300 SendCheckReq,
      ConsoleLog CheckingExists, WsSend (OutReq ''check'' (check_filter sample_env)),
      WsSend (OutClose ''check''), ConsoleError (GroupAlreadyExists ''teamchat''),
      WsClose, ConsoleLog Authenticating,
      WsSend (OutAuth (authEvent sample_env 335 (JStr ''nonce123''))),
      SetTimeout 300 SendCheckReq]"
proof -
  have 1: "trace (create_run sample_env [(5, Message ''[\"EOSE\",\"check\"]'')]) =
     [SetTimeout 15000 Deadline, WsSend (OutClose ''check''),
      ConsoleLog SendingCreate, WsSend (OutEvent (create_signedEvent sample_env))]"
    by (simp add: sample_create_unsolicited_run)
  have 2: "\<not> sent (OutReq ''check'' (check_filter sample_env))
       (trace (create_run sample_env [(5, Message ''[\"EOSE\",\"check\"]'')]))"
    by (simp add: sample_create_unsolicited_run sent_def)
  have 3: "\<not> auth_sent
       (trace (create_run sample_env [(5, Message ''[\"EOSE\",\"check\"]'')]))"
    by (simp add: sample_create_unsolicited_run auth_sent_def)
  have 4: "trace (create_run sample_env
     [(10, Message ''[\"AUTH\",\"nonce123\"]''), (310, TimerFired SendCheckReq),
      (320, Message ''[\"EVENT\",\"check\",{}]''), (330, Message ''[\"EOSE\",\"check\"]''),
      (335, Message ''[\"AUTH\",\"nonce123\"]'')]) =
     [SetTimeout 15000 Deadline, ConsoleLog Authenticating,
      WsSend (OutAuth (authEvent sample_env 10 (JStr ''nonce123''))),
      SetTimeout 300 SendCheckReq,
      ConsoleLog CheckingExists, WsSend (OutReq ''check'' (check_filter sample_env)),
      WsSend (OutClose ''check''), ConsoleError (GroupAlreadyExists ''teamchat''),
      WsClose, ConsoleLog Authenticating,
      WsSend (OutAuth (authEvent sample_env 335 (JStr ''nonce123''))),
      SetTimeout 300 SendCheckReq]"
    using sample_create_late_challenge_run by simp
  show ?thesis
    by (intro conjI 1 2 3 4)
qed

text \<open>
  Claim C3. When delete-group.js, still running, receives an \<^verbatim>\<open>OK\<close> frame that carries
  the identifier of the delete event it built and \<^verbatim>\<open>false\<close> as the acceptance flag, it
  reports the failure on the error console with the relay's message unchanged and calls
  \<^verbatim>\<open>ws.close()\<close>, and nothing else; the \<^verbatim>\<open>close\<close> signal that follows ends the process
  (with exit status 0).
\<close>

theorem delete_rejection_surfaced:
  assumes "status st = Running"
    and "JSON_parse e (JStr data) =
           Inr (JArr (JStr ''OK'' # JStr (ev_id (delete_signedEvent e)) # JBool False # m # rest))"
  shows "delete_step e (now, Message data) st =
           st\<lparr>trace := trace st @ [ConsoleError (FailedToDelete m), WsClose]\<rparr> \<and>
         delete_step e (later, SocketClose) (delete_step e (now, Message data) st) =
           st\<lparr>trace := trace st @ [ConsoleError (FailedToDelete m), WsClose, ProcessExit 0],
              status := Exited 0\<rparr>"
proof -
  have m: "delete_message e now
             (JArr (JStr ''OK'' # JStr (ev_id (delete_signedEvent e)) # JBool False # m # rest)) =
           Inr [ConsoleError (FailedToDelete m), WsClose]"
    by (simp add: delete_message_def)
  have 1: "delete_step e (now, Message data) st =
           st\<lparr>trace := trace st @ [ConsoleError (FailedToDelete m), WsClose]\<rparr>"
    using assms by (simp add: delete_step_def m perform_Cons perform_Nil perform1_def)
  have 2: "delete_step e (later, SocketClose)
             (st\<lparr>trace := trace st @ [ConsoleError (FailedToDelete m), WsClose]\<rparr>) =
           st\<lparr>trace := trace st @ [ConsoleError (FailedToDelete m), WsClose, ProcessExit 0],
              status := Exited 0\<rparr>"
    using assms(1) by (simp add: delete_step_def perform_Cons perform_Nil perform1_def)
  show ?thesis
    by (simp only: 1 2 simp_thms)
qed

text \<open>
  The scenario of the specification: Delete of "ghost-group", answered by
  \<^verbatim>\<open>["OK", id, false, "group not found"]\<close>.
\<close>

theorem delete_rejection_surfaced_witness:
  "status delete_init = Running \<and>
   delete_step sample_env (700, Message ''[\"OK\",\"event-id\",false,\"group not found\"]'')
     delete_init =
     delete_init\<lparr>trace := trace delete_init @
       [ConsoleError (FailedToDelete (JStr ''group not found'')), WsClose]\<rparr> \<and>
   delete_step sample_env (800, SocketClose)
     (delete_step sample_env
        (700, Message ''[\"OK\",\"event-id\",false,\"group not found\"]'') delete_init) =
     delete_init\<lparr>trace := trace delete_init @
       [ConsoleError (FailedToDelete (JStr ''group not found'')), WsClose, ProcessExit 0],
       status := Exited 0\<rparr>"
  by (rule conjI [OF delete_init_Running
        delete_rejection_surfaced [OF delete_init_Running sample_parse_rejected]])

text \<open>
  Claim C4, as amended. In all three scripts a message that parses to a value other
  than \<^verbatim>\<open>null\<close> whose first element is none of \<^verbatim>\<open>AUTH\<close>, \<^verbatim>\<open>EVENT\<close>, \<^verbatim>\<open>EOSE\<close> and
  \<^verbatim>\<open>OK\<close> is ignored: no call is made, no variable changes and the process goes on. A
  message that is not JSON text makes \<^verbatim>\<open>JSON.parse\<close> throw, and a message that parses
  to \<^verbatim>\<open>null\<close> makes the read of its first element throw; no script catches either
  error, which ends the process.
\<close>

theorem unknown_frames_ignored:
  assumes "status sd = Running" and "status sc = Running" and "status sl = Running"
  shows "(JSON_parse e (JStr data1) = Inr r \<and> js_index r 0 = Inr t \<and>
          t \<noteq> JStr ''AUTH'' \<and> t \<noteq> JStr ''EVENT'' \<and> t \<noteq> JStr ''EOSE'' \<and> t \<noteq> JStr ''OK'' \<longrightarrow>
            delete_step e (now, Message data1) sd = sd \<and>
            create_step e (now, Message data1) sc = sc \<and>
            list_step e (now, Message data1) sl = sl) \<and>
         (JSON_parse e (JStr data2) = Inl err \<longrightarrow>
            delete_step e (now, Message data2) sd = sd\<lparr>status := Crashed err\<rparr> \<and>
            create_step e (now, Message data2) sc = sc\<lparr>status := Crashed err\<rparr> \<and>
            list_step e (now, Message data2) sl = sl\<lparr>status := Crashed err\<rparr>) \<and>
         (JSON_parse e (JStr data3) = Inr JNull \<longrightarrow>
            delete_step e (now, Message data3) sd = sd\<lparr>status := Crashed TypeError\<rparr> \<and>
            create_step e (now, Message data3) sc = sc\<lparr>status := Crashed TypeError\<rparr> \<and>
            list_step e (now, Message data3) sl = sl\<lparr>status := Crashed TypeError\<rparr>)"
proof (intro conjI impI)
  assume a: "JSON_parse e (JStr data1) = Inr r \<and> js_index r 0 = Inr t \<and>
          t \<noteq> JStr ''AUTH'' \<and> t \<noteq> JStr ''EVENT'' \<and> t \<noteq> JStr ''EOSE'' \<and> t \<noteq> JStr ''OK''"
  then show "delete_step e (now, Message data1) sd = sd"
    using assms(1) by (simp add: delete_step_def delete_message_other perform_Nil)
  from a show "create_step e (now, Message data1) sc = sc"
    using assms(2) by (simp add: create_step_def create_message_other perform_Nil)
  from a show "list_step e (now, Message data1) sl = sl"
    using assms(3) by (simp add: list_step_def list_message_other perform_Nil)
next
  assume "JSON_parse e (JStr data2) = Inl err"
  then show "delete_step e (now, Message data2) sd = sd\<lparr>status := Crashed err\<rparr>"
    and "create_step e (now, Message data2) sc = sc\<lparr>status := Crashed err\<rparr>"
    and "list_step e (now, Message data2) sl = sl\<lparr>status := Crashed err\<rparr>"
    using assms by (simp_all add: delete_step_def create_step_def list_step_def)
next
  assume "JSON_parse e (JStr data3) = Inr JNull"
  then show "delete_step e (now, Message data3) sd = sd\<lparr>status := Crashed TypeError\<rparr>"
    and "create_step e (now, Message data3) sc = sc\<lparr>status := Crashed TypeError\<rparr>"
    and "list_step e (now, Message data3) sl = sl\<lparr>status := Crashed TypeError\<rparr>"
    using assms
    by (simp_all add: delete_step_def create_step_def list_step_def delete_message_def
        create_message_def list_message_def)
qed

text \<open>
  A \<^verbatim>\<open>NOTICE\<close> frame is ignored; the texts \<^verbatim>\<open>not json\<close> and \<^verbatim>\<open>null\<close> end the process.
\<close>

theorem unknown_frames_ignored_witness:
  "status delete_init = Running \<and> status create_init = Running \<and> status list_init = Running \<and>
   JSON_parse sample_env (JStr ''[\"NOTICE\",\"hello\"]'') =
     Inr (JArr [JStr ''NOTICE'', JStr ''hello'']) \<and>
   js_index (JArr [JStr ''NOTICE'', JStr ''hello'']) 0 = Inr (JStr ''NOTICE'') \<and>
   JStr ''NOTICE'' \<noteq> JStr ''AUTH'' \<and> JStr ''NOTICE'' \<noteq> JStr ''EVENT'' \<and>
   JStr ''NOTICE'' \<noteq> JStr ''EOSE'' \<and> JStr ''NOTICE'' \<noteq> JStr ''OK'' \<and>
   JSON_parse sample_env (JStr ''not json'') = Inl SyntaxError \<and>
   JSON_parse sample_env (JStr ''null'') = Inr JNull \<and>
   delete_step sample_env (20, Message ''[\"NOTICE\",\"hello\"]'') delete_init = delete_init \<and>
   create_step sample_env (20, Message ''[\"NOTICE\",\"hello\"]'') create_init = create_init \<and>
   list_step sample_env (20, Message ''[\"NOTICE\",\"hello\"]'') list_init = list_init \<and>
   delete_step sample_env (20, Message ''not json'') delete_init =
     delete_init\<lparr>status := Crashed SyntaxError\<rparr> \<and>
   create_step sample_env (20, Message ''null'') create_init =
     create_init\<lparr>status := Crashed TypeError\<rparr>"
proof -
  have i: "js_index (JArr [JStr ''NOTICE'', JStr ''hello'']) 0 = Inr (JStr ''NOTICE'')"
    by simp
  have n: "JStr ''NOTICE'' \<noteq> JStr ''AUTH''" "JStr ''NOTICE'' \<noteq> JStr ''EVENT''"
    "JStr ''NOTICE'' \<noteq> JStr ''EOSE''" "JStr ''NOTICE'' \<noteq> JStr ''OK''"
    by simp_all
  note T = unknown_frames_ignored [OF delete_init_Running create_init_Running list_init_Running,
      of sample_env "''[\"NOTICE\",\"hello\"]''" "JArr [JStr ''NOTICE'', JStr ''hello'']"
         "JStr ''NOTICE''" 20 "''not json''" SyntaxError "''null''"]
  have a: "delete_step sample_env (20, Message ''[\"NOTICE\",\"hello\"]'') delete_init = delete_init \<and>
           create_step sample_env (20, Message ''[\"NOTICE\",\"hello\"]'') create_init = create_init \<and>
           list_step sample_env (20, Message ''[\"NOTICE\",\"hello\"]'') list_init = list_init"
    by (rule T [THEN conjunct1, THEN mp]) (intro conjI sample_parse_notice i n)
  have b: "delete_step sample_env (20, Message ''not json'') delete_init =
             delete_init\<lparr>status := Crashed SyntaxError\<rparr>"
    by (rule T [THEN conjunct2, THEN conjunct1, THEN mp, OF sample_parse_not_json, THEN conjunct1])
  have c: "create_step sample_env (20, Message ''null'') create_init =
             create_init\<lparr>status := Crashed TypeError\<rparr>"
    by (rule T [THEN conjunct2, THEN conjunct2, THEN mp, OF sample_parse_null,
          THEN conjunct2, THEN conjunct1])
  show ?thesis
    by (intro conjI delete_init_Running create_init_Running list_init_Running
        sample_parse_notice i n sample_parse_not_json sample_parse_null
        a [THEN conjunct1] a [THEN conjunct2, THEN conjunct1] a [THEN conjunct2, THEN conjunct2]
        b c)
qed

text \<open>
  Claim C4 as stated fails: the message \<^verbatim>\<open>null\<close> ends each of the three scripts with an
  uncaught \<^verbatim>\<open>TypeError\<close>, and the message \<^verbatim>\<open>not json\<close> ends delete-group.js with an
  uncaught \<^verbatim>\<open>SyntaxError\<close>.
\<close>

theorem malformed_message_crashes:
  "status (delete_step sample_env (20, Message ''null'') delete_init) = Crashed TypeError \<and>
   status (create_step sample_env (20, Message ''null'') create_init) = Crashed TypeError \<and>
   status (list_step sample_env (20, Message ''null'') list_init) = Crashed TypeError \<and>
   status (delete_step sample_env (20, Message ''not json'') delete_init) = Crashed SyntaxError"
  by (simp add: delete_step_def create_step_def list_step_def delete_message_def
      create_message_def list_message_def sample_parse_null sample_parse_not_json
      delete_init_Running create_init_Running list_init_Running)


text \<open>
  Claim C6. When list-groups.js handles an \<^verbatim>\<open>EVENT\<close> frame for \<^verbatim>\<open>groups\<close>, it pushes
  the record reconstructed from the event (and pushes nothing when the reconstruction
  throws). In the record pushed, the name is the value of the last \<^verbatim>\<open>name\<close> tag when
  the event has one, and the name read from the JSON content (or the default) only when
  it has none; the same holds for the description with the \<^verbatim>\<open>about\<close> tag and for the
  visibility with the \<^verbatim>\<open>public\<close> and \<^verbatim>\<open>private\<close> tags. So a tag overrides the content,
  and a later tag overrides an earlier one. An event whose only tag is \<^verbatim>\<open>["name","Z"]\<close>
  adds a record named "Z" whatever the content says, and the next \<^verbatim>\<open>EOSE\<close> frame
  prints the record pushed, its heading showing that name.
\<close>

theorem tags_override_content:
  assumes "status st = Running"
    and "JSON_parse e (JStr data) =
           Inr (JArr (JStr ''EVENT'' # JStr ''groups'' # event # rest))"
    and "js_prop event ''tags'' = JArr ts"
  shows "list_step e (now, Message data) st =
           (case group_record e event of
              Inl err \<Rightarrow> st
            | Inr g \<Rightarrow> st\<lparr>vars := (vars st)\<lparr>groups := groups (vars st) @ [g]\<rparr>\<rparr>) \<and>
         (group_record e event = Inr g \<longrightarrow>
            g_name g =
              (case tag_value ''name'' ts of
                 Some v \<Rightarrow> v
               | None \<Rightarrow> fst (content_metadata e (js_prop event ''content''))) \<and>
            g_description g =
              (case tag_value ''about'' ts of
                 Some v \<Rightarrow> v
               | None \<Rightarrow> fst (snd (content_metadata e (js_prop event ''content'')))) \<and>
            g_private g =
              (case tag_visibility ts of
                 Some v \<Rightarrow> v
               | None \<Rightarrow> snd (snd (content_metadata e (js_prop event ''content''))))) \<and>
         (js_get event ''content'' = Inr c \<and>
          toISOString e (js_prop event ''created_at'') = Inr created \<and>
          ts = [JArr [JStr ''name'', JStr ''Z'']] \<longrightarrow>
            groups (vars (list_step e (now, Message data) st)) =
              groups (vars st) @
              [\<lparr> g_id = JStr ''unknown'', g_name = JStr ''Z'',
                 g_description = fst (snd (content_metadata e c)),
                 g_private = snd (snd (content_metadata e c)), g_created = created \<rparr>]) \<and>
         (group_record e event = Inr g \<and>
          JSON_parse e (JStr data2) = Inr (JArr (JStr ''EOSE'' # rest2)) \<longrightarrow>
            trace (list_step e (now2, Message data2) (list_step e (now, Message data) st)) =
              trace st @ print_groups (groups (vars st) @ [g]) @ [WsClose] \<and>
            ConsoleLog (GroupHeading (length (groups (vars st)) + 1) (g_name g)
                         (truthy (g_private g)))
              \<in> set (print_groups (groups (vars st) @ [g])))"
proof -
  note step = list_step_EVENT_groups [OF assms(1) assms(2), of now]
  have fields: "g_name g =
              (case tag_value ''name'' ts of
                 Some v \<Rightarrow> v
               | None \<Rightarrow> fst (content_metadata e (js_prop event ''content''))) \<and>
            g_description g =
              (case tag_value ''about'' ts of
                 Some v \<Rightarrow> v
               | None \<Rightarrow> fst (snd (content_metadata e (js_prop event ''content'')))) \<and>
            g_private g =
              (case tag_visibility ts of
                 Some v \<Rightarrow> v
               | None \<Rightarrow> snd (snd (content_metadata e (js_prop event ''content''))))"
    if r: "group_record e event = Inr g"
  proof -
    from r obtain c ts' n d p where
      c: "js_get event ''content'' = Inr c" and ts': "js_prop event ''tags'' = JArr ts'" and
      a: "apply_tags (content_metadata e c) ts' = Inr (n, d, p)" and
      g: "g_name g = n" "g_description g = d" "g_private g = p"
      by (rule group_record_fields)
    from ts' assms(3) have [simp]: "ts' = ts" by simp
    from c have c': "js_prop event ''content'' = c" by (simp add: js_prop_def)
    obtain n0 d0 p0 where m: "content_metadata e c = (n0, d0, p0)"
      by (cases "content_metadata e c") auto
    from a m have a': "apply_tags (n0, d0, p0) ts = Inr (n, d, p)" by simp
    have 1: "n = (case tag_value ''name'' ts of Some v \<Rightarrow> v | None \<Rightarrow> n0)"
      by (rule apply_tags_name [OF a'])
    have 2: "d = (case tag_value ''about'' ts of Some v \<Rightarrow> v | None \<Rightarrow> d0)"
      by (rule apply_tags_about [OF a'])
    have 3: "p = (case tag_visibility ts of Some v \<Rightarrow> v | None \<Rightarrow> p0)"
      by (rule apply_tags_visibility [OF a'])
    show ?thesis
      unfolding g c' m fst_conv snd_conv
      using 1 2 3 by (intro conjI)
  qed
  have example: "groups (vars (list_step e (now, Message data) st)) =
              groups (vars st) @
              [\<lparr> g_id = JStr ''unknown'', g_name = JStr ''Z'',
                 g_description = fst (snd (content_metadata e c)),
                 g_private = snd (snd (content_metadata e c)), g_created = created \<rparr>]"
    if h: "js_get event ''content'' = Inr c \<and>
          toISOString e (js_prop event ''created_at'') = Inr created \<and>
          ts = [JArr [JStr ''name'', JStr ''Z'']]"
  proof -
    obtain n0 d0 p0 where m: "content_metadata e c = (n0, d0, p0)"
      by (cases "content_metadata e c") auto
    from h assms(3) have "group_record e event =
        Inr \<lparr> g_id = JStr ''unknown'', g_name = JStr ''Z'', g_description = d0,
              g_private = p0, g_created = created \<rparr>"
      by (simp add: group_record_def m apply_tag_def js_or_def Let_def)
    with step m show ?thesis by simp
  qed
  have display: "trace (list_step e (now2, Message data2) (list_step e (now, Message data) st)) =
              trace st @ print_groups (groups (vars st) @ [g]) @ [WsClose] \<and>
            ConsoleLog (GroupHeading (length (groups (vars st)) + 1) (g_name g)
                         (truthy (g_private g)))
              \<in> set (print_groups (groups (vars st) @ [g]))"
    if h: "group_record e event = Inr g \<and>
          JSON_parse e (JStr data2) = Inr (JArr (JStr ''EOSE'' # rest2))"
  proof -
    let ?st1 = "list_step e (now, Message data) st"
    from h step have s1: "?st1 = st\<lparr>vars := (vars st)\<lparr>groups := groups (vars st) @ [g]\<rparr>\<rparr>"
      by simp
    with assms(1) have r1: "status ?st1 = Running" by simp
    from h have p2: "JSON_parse e (JStr data2) = Inr (JArr (JStr ''EOSE'' # rest2))" by simp
    have "trace (list_step e (now2, Message data2) ?st1) =
          trace ?st1 @ print_groups (groups (vars ?st1)) @ [WsClose]"
      by (simp only: list_step_EOSE [OF r1 p2]) simp
    then have "trace (list_step e (now2, Message data2) ?st1) =
          trace st @ print_groups (groups (vars st) @ [g]) @ [WsClose]"
      by (simp add: s1)
    then show ?thesis
      by (intro conjI print_groups_heading)
  qed
  show ?thesis
    by (rule conjI [OF step conjI [OF impI [OF fields]
          conjI [OF impI [OF example] impI [OF display]]]])
qed

text \<open>
  The example of the specification, as a run: challenge, request, the frame carrying the
  event with content \<^verbatim>\<open>{"name":"X","about":"Y"}\<close> and the tag \<^verbatim>\<open>["name","Z"]\<close>, then
  \<^verbatim>\<open>EOSE\<close>. The content gives the name "X"; the record and the heading printed have
  the name "Z".
\<close>

theorem tags_override_content_witness:
  "status (list_run sample_env
     [(10, Message ''[\"AUTH\",\"nonce123\"]''), (310, TimerFired SendGroupsRequest)]) =
     Running \<and>
   JSON_parse sample_env (JStr sample_groups_frame) =
     Inr (JArr (JStr ''EVENT'' # JStr ''groups'' # sample_metadata_event # [])) \<and>
   js_prop sample_metadata_event ''tags'' = JArr [JArr [JStr ''name'', JStr ''Z'']] \<and>
   js_get sample_metadata_event ''content'' = Inr (JStr ''{\"name\":\"X\",\"about\":\"Y\"}'') \<and>
   content_metadata sample_env (JStr ''{\"name\":\"X\",\"about\":\"Y\"}'') =
     (JStr ''X'', JStr ''Y'', JBool False) \<and>
   toISOString sample_env (js_prop sample_metadata_event ''created_at'') =
     Inr ''2025-01-19T12:00:00.000Z'' \<and>
   group_record sample_env sample_metadata_event =
     Inr \<lparr> g_id = JStr ''unknown'', g_name = JStr ''Z'', g_description = JStr ''Y'',
           g_private = JBool False, g_created = ''2025-01-19T12:00:00.000Z'' \<rparr> \<and>
   JSON_parse sample_env (JStr ''[\"EOSE\",\"groups\"]'') =
     Inr (JArr (JStr ''EOSE'' # [JStr ''groups''])) \<and>
   list_run sample_env
     [(10, Message ''[\"AUTH\",\"nonce123\"]''), (310, TimerFired SendGroupsRequest),
      (320, Message sample_groups_frame)] =
   \<lparr> vars = \<lparr> authenticatedL = True,
              groups = [\<lparr> g_id = JStr ''unknown'', g_name = JStr ''Z'',
                          g_description = JStr ''Y'', g_private = JBool False,
                          g_created = ''2025-01-19T12:00:00.000Z'' \<rparr>] \<rparr>,
     trace = [SetTimeout 5000 Deadline, ConsoleLog Authenticating,
              WsSend (OutAuth (authEvent sample_env 10 (JStr ''nonce123''))),
              SetTimeout 300 SendGroupsRequest,
              WsSend (OutReq ''groups'' groups_filter)],
     timers = [(5000, Deadline)], status = Running \<rparr> \<and>
   tag_value ''name'' [JArr [JStr ''name'', JStr ''Z'']] = Some (JStr ''Z'') \<and>
   tag_value ''about'' [JArr [JStr ''name'', JStr ''Z'']] = None \<and>
   tag_visibility [JArr [JStr ''name'', JStr ''Z'']] = None \<and>
   map g_name (groups (vars (list_run sample_env
     [(10, Message ''[\"AUTH\",\"nonce123\"]''), (310, TimerFired SendGroupsRequest),
      (320, Message sample_groups_frame)]))) = [JStr ''Z''] \<and>
   trace (list_run sample_env
     [(10, Message ''[\"AUTH\",\"nonce123\"]''), (310, TimerFired SendGroupsRequest),
      (320, Message sample_groups_frame), (330, Message ''[\"EOSE\",\"groups\"]'')]) =
     [SetTimeout 5000 Deadline, ConsoleLog Authenticating,
      WsSend (OutAuth (authEvent sample_env 10 (JStr ''nonce123''))),
      SetTimeout 300 SendGroupsRequest,
      WsSend (OutReq ''groups'' groups_filter),
      ConsoleLog (FoundGroups 1), ConsoleLog (GroupHeading 1 (JStr ''Z'') False),
      ConsoleLog (GroupId (JStr ''unknown'')), ConsoleLog (GroupDescription (JStr ''Y'')),
      ConsoleLog (GroupCreatedAt ''2025-01-19T12:00:00.000Z''), ConsoleLog Blank,
      WsClose]"
proof -
  let ?pre = "[(10, Message ''[\"AUTH\",\"nonce123\"]''), (310, TimerFired SendGroupsRequest)]"
  let ?G = "\<lparr> g_id = JStr ''unknown'', g_name = JStr ''Z'', g_description = JStr ''Y'',
              g_private = JBool False, g_created = ''2025-01-19T12:00:00.000Z'' \<rparr>"
  have r: "status (list_run sample_env ?pre) = Running"
    by (simp add: sample_list_request_run)
  note T = tags_override_content [OF r sample_parse_groups_frame sample_event_tags,
      where now = 320 and g = ?G and c = "JStr ''{\"name\":\"X\",\"about\":\"Y\"}''"
        and created = "''2025-01-19T12:00:00.000Z''"
        and ?data2.0 = "''[\"EOSE\",\"groups\"]''" and ?rest2.0 = "[JStr ''groups'']"
        and ?now2.0 = 330]
  have tn: "tag_value ''name'' [JArr [JStr ''name'', JStr ''Z'']] = Some (JStr ''Z'')"
    by (simp add: tag_value_def)
  have ta: "tag_value ''about'' [JArr [JStr ''name'', JStr ''Z'']] = None"
    by (simp add: tag_value_def)
  have tv: "tag_visibility [JArr [JStr ''name'', JStr ''Z'']] = None"
    by (simp add: tag_visibility_def)
  have s3: "list_run sample_env (?pre @ [(320, Message sample_groups_frame)]) =
            list_step sample_env (320, Message sample_groups_frame) (list_run sample_env ?pre)"
    by (rule list_run_snoc)
  have s4: "list_run sample_env
              (?pre @ [(320, Message sample_groups_frame),
                       (330, Message ''[\"EOSE\",\"groups\"]'')]) =
            list_step sample_env (330, Message ''[\"EOSE\",\"groups\"]'')
              (list_step sample_env (320, Message sample_groups_frame)
                 (list_run sample_env ?pre))"
    by (simp add: list_run_def)
  have A: "list_run sample_env (?pre @ [(320, Message sample_groups_frame)]) =
           \<lparr> vars = \<lparr> authenticatedL = True, groups = [?G] \<rparr>,
             trace = [SetTimeout 5000 Deadline, ConsoleLog Authenticating,
                      WsSend (OutAuth (authEvent sample_env 10 (JStr ''nonce123''))),
                      SetTimeout 300 SendGroupsRequest,
                      WsSend (OutReq ''groups'' groups_filter)],
             timers = [(5000, Deadline)], status = Running \<rparr>"
    unfolding s3 T [THEN conjunct1]
    by (simp add: sample_group_record sample_list_request_run)
  have C: "map g_name (groups (vars (list_run sample_env
             (?pre @ [(320, Message sample_groups_frame)])))) = [JStr ''Z'']"
    unfolding s3
      T [THEN conjunct2, THEN conjunct2, THEN conjunct1, THEN mp,
         OF conjI [OF sample_event_content conjI [OF sample_event_created refl]]]
    by (simp add: sample_list_request_run)
  have D: "trace (list_run sample_env
              (?pre @ [(320, Message sample_groups_frame),
                       (330, Message ''[\"EOSE\",\"groups\"]'')])) =
     [SetTimeout 5000 Deadline, ConsoleLog Authenticating,
      WsSend (OutAuth (authEvent sample_env 10 (JStr ''nonce123''))),
      SetTimeout 300 SendGroupsRequest,
      WsSend (OutReq ''groups'' groups_filter),
      ConsoleLog (FoundGroups 1), ConsoleLog (GroupHeading 1 (JStr ''Z'') False),
      ConsoleLog (GroupId (JStr ''unknown'')), ConsoleLog (GroupDescription (JStr ''Y'')),
      ConsoleLog (GroupCreatedAt ''2025-01-19T12:00:00.000Z''), ConsoleLog Blank,
      WsClose]"
    unfolding s4
      T [THEN conjunct2, THEN conjunct2, THEN conjunct2, THEN mp,
         OF conjI [OF sample_group_record sample_parse_eose_groups], THEN conjunct1]
    by (simp add: sample_list_request_run sample_print_groups)
  from A have A': "list_run sample_env
     [(10, Message ''[\"AUTH\",\"nonce123\"]''), (310, TimerFired SendGroupsRequest),
      (320, Message sample_groups_frame)] =
           \<lparr> vars = \<lparr> authenticatedL = True, groups = [?G] \<rparr>,
             trace = [SetTimeout 5000 Deadline, ConsoleLog Authenticating,
                      WsSend (OutAuth (authEvent sample_env 10 (JStr ''nonce123''))),
                      SetTimeout 300 SendGroupsRequest,
                      WsSend (OutReq ''groups'' groups_filter)],
             timers = [(5000, Deadline)], status = Running \<rparr>"
    by (simp only: append.simps)
  from C have C': "map g_name (groups (vars (list_run sample_env
     [(10, Message ''[\"AUTH\",\"nonce123\"]''), (310, TimerFired SendGroupsRequest),
      (320, Message sample_groups_frame)]))) = [JStr ''Z'']"
    by (simp only: append.simps)
  from D have D': "trace (list_run sample_env
     [(10, Message ''[\"AUTH\",\"nonce123\"]''), (310, TimerFired SendGroupsRequest),
      (320, Message sample_groups_frame), (330, Message ''[\"EOSE\",\"groups\"]'')]) =
     [SetTimeout 5000 Deadline, ConsoleLog Authenticating,
      WsSend (OutAuth (authEvent sample_env 10 (JStr ''nonce123''))),
      SetTimeout 300 SendGroupsRequest,
      WsSend (OutReq ''groups'' groups_filter),
      ConsoleLog (FoundGroups 1), ConsoleLog (GroupHeading 1 (JStr ''Z'') False),
      ConsoleLog (GroupId (JStr ''unknown'')), ConsoleLog (GroupDescription (JStr ''Y'')),
      ConsoleLog (GroupCreatedAt ''2025-01-19T12:00:00.000Z''), ConsoleLog Blank,
      WsClose]"
    by (simp only: append.simps)
  show ?thesis
    by (intro conjI r sample_parse_groups_frame sample_event_tags sample_event_content
        sample_content_metadata sample_event_created sample_group_record
        sample_parse_eose_groups A' tn ta tv C' D')
qed

text \<open>
  Claim C7, as amended. create-group.js sends \<^verbatim>\<open>["CLOSE","check"]\<close> when it handles
  the \<^verbatim>\<open>EOSE\<close> frame of the label \<^verbatim>\<open>check\<close>: it is the first call of that branch, made
  whether or not a group was found, and no other branch of the message handler sends a
  \<^verbatim>\<open>CLOSE\<close> frame. When the deadline fires, or the socket reports an error, the script
  sends no frame at all: it prints the failure and ends (closing the socket first on
  the deadline).
\<close>

theorem check_closed_on_eose:
  "create_message e now (JArr (JStr ''EOSE'' # JStr ''check'' # rest)) v =
     Inr (WsSend (OutClose ''check'') #
          (if groupExists v
           then [ConsoleError (GroupAlreadyExists (groupId e)), WsClose]
           else [ConsoleLog SendingCreate, WsSend (OutEvent (create_signedEvent e))]),
          v) \<and>
   (create_message e now r v = Inr (es, v') \<and> sent (OutClose l) es \<longrightarrow>
      js_index r 0 = Inr (JStr ''EOSE'') \<and> elem r 1 = JStr ''check'' \<and> l = ''check'') \<and>
   frames (create_timer e Deadline) = [] \<and>
   (status st = Running \<and> armed Deadline (timers st) \<longrightarrow>
      create_step e (t1, TimerFired Deadline) st =
        st\<lparr>timers := remove_timer Deadline (timers st),
           trace := trace st @ [ConsoleError Timeout, WsClose, ProcessExit 1],
           status := Exited 1\<rparr>) \<and>
   (status st = Running \<longrightarrow>
      create_step e (t2, SocketError msg) st =
        st\<lparr>trace := trace st @ [ConsoleError (WebSocketError msg), ProcessExit 1],
           status := Exited 1\<rparr>)"
proof (intro conjI impI)
  show "create_message e now (JArr (JStr ''EOSE'' # JStr ''check'' # rest)) v =
     Inr (WsSend (OutClose ''check'') #
          (if groupExists v
           then [ConsoleError (GroupAlreadyExists (groupId e)), WsClose]
           else [ConsoleLog SendingCreate, WsSend (OutEvent (create_signedEvent e))]),
          v)"
    by (rule create_message_EOSE)
  show "frames (create_timer e Deadline) = []"
    by (simp add: frames_def create_timer_def)
next
  assume a: "create_message e now r v = Inr (es, v') \<and> sent (OutClose l) es"
  then show "js_index r 0 = Inr (JStr ''EOSE'')" and "elem r 1 = JStr ''check''"
    and "l = ''check''"
    using create_message_Close_only_EOSE [of e now r v es v' l] by simp_all
next
  assume "status st = Running \<and> armed Deadline (timers st)"
  then show "create_step e (t1, TimerFired Deadline) st =
        st\<lparr>timers := remove_timer Deadline (timers st),
           trace := trace st @ [ConsoleError Timeout, WsClose, ProcessExit 1],
           status := Exited 1\<rparr>"
    by (simp add: create_deadline_fires)
next
  assume "status st = Running"
  then show "create_step e (t2, SocketError msg) st =
        st\<lparr>trace := trace st @ [ConsoleError (WebSocketError msg), ProcessExit 1],
           status := Exited 1\<rparr>"
    by (rule create_error_exits)
qed

text \<open>
  The branch with a group found, the deadline and a socket error at the start.
\<close>

theorem check_closed_on_eose_witness:
  "create_message sample_env 400 (JArr [JStr ''EOSE'', JStr ''check''])
      \<lparr> authenticated = True, groupExists = True \<rparr> =
     Inr ([WsSend (OutClose ''check''), ConsoleError (GroupAlreadyExists ''teamchat''), WsClose],
          \<lparr> authenticated = True, groupExists = True \<rparr>) \<and>
   sent (OutClose ''check'')
     [WsSend (OutClose ''check''), ConsoleError (GroupAlreadyExists ''teamchat''), WsClose] \<and>
   js_index (JArr [JStr ''EOSE'', JStr ''check'']) 0 = Inr (JStr ''EOSE'') \<and>
   (status create_init = Running \<and> armed Deadline (timers create_init)) \<and>
   create_step sample_env (15000, TimerFired Deadline) create_init =
     create_init\<lparr>timers := remove_timer Deadline (timers create_init),
       trace := trace create_init @ [ConsoleError Timeout, WsClose, ProcessExit 1],
       status := Exited 1\<rparr> \<and>
   create_step sample_env (100, SocketError ''ECONNRESET'') create_init =
     create_init\<lparr>trace := trace create_init @
        [ConsoleError (WebSocketError ''ECONNRESET''), ProcessExit 1],
       status := Exited 1\<rparr>"
proof -
  note T = check_closed_on_eose
    [of sample_env 400 "[]" "\<lparr> authenticated = True, groupExists = True \<rparr>"
        "JArr [JStr ''EOSE'', JStr ''check'']"
        "[WsSend (OutClose ''check''), ConsoleError (GroupAlreadyExists ''teamchat''), WsClose]"
        "\<lparr> authenticated = True, groupExists = True \<rparr>" "''check''" create_init
        15000 100 "''ECONNRESET''"]
  have g: "groupId sample_env = ''teamchat''"
    by (simp add: groupId_def sample_env_def generateGroupId_eq normalized_name_Team_Chat)
  have m: "create_message sample_env 400 (JArr [JStr ''EOSE'', JStr ''check''])
      \<lparr> authenticated = True, groupExists = True \<rparr> =
     Inr ([WsSend (OutClose ''check''), ConsoleError (GroupAlreadyExists ''teamchat''), WsClose],
          \<lparr> authenticated = True, groupExists = True \<rparr>)"
    using T [THEN conjunct1] by (simp add: g)
  have s: "sent (OutClose ''check'')
     [WsSend (OutClose ''check''), ConsoleError (GroupAlreadyExists ''teamchat''), WsClose]"
    by (simp add: sent_def)
  have i: "js_index (JArr [JStr ''EOSE'', JStr ''check'']) 0 = Inr (JStr ''EOSE'')"
    by (rule T [THEN conjunct2, THEN conjunct1, THEN mp, OF conjI [OF m s], THEN conjunct1])
  have a: "status create_init = Running \<and> armed Deadline (timers create_init)"
    by (simp add: create_init_eq armed_def)
  show ?thesis
    by (intro conjI m s i a [THEN conjunct1] a [THEN conjunct2]
        T [THEN conjunct2, THEN conjunct2, THEN conjunct2, THEN conjunct1, THEN mp, OF a]
        T [THEN conjunct2, THEN conjunct2, THEN conjunct2, THEN conjunct2, THEN mp,
           OF create_init_Running])
qed

text \<open>
  Claim C7 as stated fails: in the run where the relay sends its challenge, the
  \<^verbatim>\<open>REQ\<close> on \<^verbatim>\<open>check\<close> goes out and the deadline fires before any \<^verbatim>\<open>EOSE\<close>, the
  script exits with status 1 and has never sent \<^verbatim>\<open>["CLOSE","check"]\<close>.
\<close>

theorem timeout_leaves_check_open:
  "sent (OutReq ''check'' (check_filter sample_env))
     (trace (create_run sample_env
        [(10, Message ''[\"AUTH\",\"nonce123\"]''), (310, TimerFired SendCheckReq),
         (15000, TimerFired Deadline)])) \<and>
   \<not> sent (OutClose ''check'')
     (trace (create_run sample_env
        [(10, Message ''[\"AUTH\",\"nonce123\"]''), (310, TimerFired SendCheckReq),
         (15000, TimerFired Deadline)])) \<and>
   status (create_run sample_env
        [(10, Message ''[\"AUTH\",\"nonce123\"]''), (310, TimerFired SendCheckReq),
         (15000, TimerFired Deadline)]) = Exited 1"
proof -
  have "create_run sample_env
        [(10, Message ''[\"AUTH\",\"nonce123\"]''), (310, TimerFired SendCheckReq),
         (15000, TimerFired Deadline)] =
     \<lparr> vars = \<lparr> authenticated = True, groupExists = False \<rparr>,
       trace = [SetTimeout 15000 Deadline, ConsoleLog Authenticating,
                WsSend (OutAuth (authEvent sample_env 10 (JStr ''nonce123''))),
                SetTimeout 300 SendCheckReq,
                ConsoleLog CheckingExists, WsSend (OutReq ''check'' (check_filter sample_env)),
                ConsoleError Timeout, WsClose, ProcessExit 1],
       timers = [], status = Exited 1 \<rparr>"
    by (simp add: create_run_def sample_create_auth_step)
       (simp add: create_step_def create_timer_def armed_def perform_def perform1_def)
  then show ?thesis
    by (simp add: sent_def)
qed

text \<open>
  Claim C8, as amended. delete-group.js and create-group.js arm a timer of 15000 ms at
  the start; in every run it stays armed for as long as the process lives, and when it
  fires the script prints \<^verbatim>\<open>Timeout\<close> on the error console, calls \<^verbatim>\<open>ws.close()\<close> and
  exits with status 1, whatever it was waiting for. list-groups.js arms a timer of
  5000 ms; while its process lives that timer is armed or \<^verbatim>\<open>ws.close()\<close> has been
  called; when it fires the script prints "No groups found (or timeout reached)." if it
  has collected no group and calls \<^verbatim>\<open>ws.close()\<close>: it reports no failure, and the
  \<^verbatim>\<open>close\<close> signal ends the process with status 0.
\<close>

theorem deadline_ends_run:
  "(status (delete_run e evs) = Running \<longrightarrow>
      (15000, Deadline) \<in> set (timers (delete_run e evs))) \<and>
   (status (create_run e evs) = Running \<longrightarrow>
      (15000, Deadline) \<in> set (timers (create_run e evs))) \<and>
   (status (list_run e evs) = Running \<longrightarrow>
      (5000, Deadline) \<in> set (timers (list_run e evs)) \<or>
      WsClose \<in> set (trace (list_run e evs))) \<and>
   (status sd = Running \<and> armed Deadline (timers sd) \<longrightarrow>
      delete_step e (t1, TimerFired Deadline) sd =
        sd\<lparr>timers := remove_timer Deadline (timers sd),
           trace := trace sd @ [ConsoleError Timeout, WsClose, ProcessExit 1],
           status := Exited 1\<rparr>) \<and>
   (status sc = Running \<and> armed Deadline (timers sc) \<longrightarrow>
      create_step e (t2, TimerFired Deadline) sc =
        sc\<lparr>timers := remove_timer Deadline (timers sc),
           trace := trace sc @ [ConsoleError Timeout, WsClose, ProcessExit 1],
           status := Exited 1\<rparr>) \<and>
   (status sl = Running \<and> armed Deadline (timers sl) \<longrightarrow>
      list_step e (t3, TimerFired Deadline) sl =
        sl\<lparr>timers := remove_timer Deadline (timers sl),
           trace := trace sl @
             (if length (groups (vars sl)) = 0 then [ConsoleLog NoGroupsOrTimeout] else []) @
             [WsClose]\<rparr> \<and>
      list_step e (t4, SocketClose) (list_step e (t3, TimerFired Deadline) sl) =
        sl\<lparr>timers := remove_timer Deadline (timers sl),
           trace := trace sl @
             (if length (groups (vars sl)) = 0 then [ConsoleLog NoGroupsOrTimeout] else []) @
             [WsClose, ProcessExit 0],
           status := Exited 0\<rparr>)"
proof (intro conjI)
  show "status (delete_run e evs) = Running \<longrightarrow>
      (15000, Deadline) \<in> set (timers (delete_run e evs))"
    by (rule delete_run_deadline)
  show "status (create_run e evs) = Running \<longrightarrow>
      (15000, Deadline) \<in> set (timers (create_run e evs))"
    by (rule create_run_deadline)
  show "status (list_run e evs) = Running \<longrightarrow>
      (5000, Deadline) \<in> set (timers (list_run e evs)) \<or>
      WsClose \<in> set (trace (list_run e evs))"
    by (rule list_run_deadline)
  show "status sd = Running \<and> armed Deadline (timers sd) \<longrightarrow>
      delete_step e (t1, TimerFired Deadline) sd =
        sd\<lparr>timers := remove_timer Deadline (timers sd),
           trace := trace sd @ [ConsoleError Timeout, WsClose, ProcessExit 1],
           status := Exited 1\<rparr>"
    by (simp add: delete_deadline_fires)
  show "status sc = Running \<and> armed Deadline (timers sc) \<longrightarrow>
      create_step e (t2, TimerFired Deadline) sc =
        sc\<lparr>timers := remove_timer Deadline (timers sc),
           trace := trace sc @ [ConsoleError Timeout, WsClose, ProcessExit 1],
           status := Exited 1\<rparr>"
    by (simp add: create_deadline_fires)
  show "status sl = Running \<and> armed Deadline (timers sl) \<longrightarrow>
      list_step e (t3, TimerFired Deadline) sl =
        sl\<lparr>timers := remove_timer Deadline (timers sl),
           trace := trace sl @
             (if length (groups (vars sl)) = 0 then [ConsoleLog NoGroupsOrTimeout] else []) @
             [WsClose]\<rparr> \<and>
      list_step e (t4, SocketClose) (list_step e (t3, TimerFired Deadline) sl) =
        sl\<lparr>timers := remove_timer Deadline (timers sl),
           trace := trace sl @
             (if length (groups (vars sl)) = 0 then [ConsoleLog NoGroupsOrTimeout] else []) @
             [WsClose, ProcessExit 0],
           status := Exited 0\<rparr>"
    by (simp add: list_deadline_fires list_close_exits)
qed

text \<open>The three scripts at their start, and their deadlines firing there.\<close>

theorem deadline_ends_run_witness:
  "status (delete_run sample_env []) = Running \<and>
   (15000, Deadline) \<in> set (timers (delete_run sample_env [])) \<and>
   status (create_run sample_env []) = Running \<and>
   (15000, Deadline) \<in> set (timers (create_run sample_env [])) \<and>
   status (list_run sample_env []) = Running \<and>
   ((5000, Deadline) \<in> set (timers (list_run sample_env [])) \<or>
    WsClose \<in> set (trace (list_run sample_env []))) \<and>
   (status delete_init = Running \<and> armed Deadline (timers delete_init)) \<and>
   delete_step sample_env (15000, TimerFired Deadline) delete_init =
     delete_init\<lparr>timers := remove_timer Deadline (timers delete_init),
       trace := trace delete_init @ [ConsoleError Timeout, WsClose, ProcessExit 1],
       status := Exited 1\<rparr> \<and>
   (status create_init = Running \<and> armed Deadline (timers create_init)) \<and>
   create_step sample_env (15000, TimerFired Deadline) create_init =
     create_init\<lparr>timers := remove_timer Deadline (timers create_init),
       trace := trace create_init @ [ConsoleError Timeout, WsClose, ProcessExit 1],
       status := Exited 1\<rparr> \<and>
   (status list_init = Running \<and> armed Deadline (timers list_init)) \<and>
   list_step sample_env (5001, SocketClose)
     (list_step sample_env (5000, TimerFired Deadline) list_init) =
     list_init\<lparr>timers := remove_timer Deadline (timers list_init),
       trace := trace list_init @
         (if length (groups (vars list_init)) = 0 then [ConsoleLog NoGroupsOrTimeout] else []) @
         [WsClose, ProcessExit 0],
       status := Exited 0\<rparr>"
proof -
  note T = deadline_ends_run
    [of sample_env "[]" delete_init 15000 create_init 15000 list_init 5000 5001]
  have d: "status (delete_run sample_env []) = Running"
    by (simp add: delete_run_def delete_init_eq)
  have c: "status (create_run sample_env []) = Running"
    by (simp add: create_run_def create_init_eq)
  have l: "status (list_run sample_env []) = Running"
    by (simp add: list_run_def list_init_eq)
  have ad: "status delete_init = Running \<and> armed Deadline (timers delete_init)"
    by (simp add: delete_init_eq armed_def)
  have ac: "status create_init = Running \<and> armed Deadline (timers create_init)"
    by (simp add: create_init_eq armed_def)
  have al: "status list_init = Running \<and> armed Deadline (timers list_init)"
    by (simp add: list_init_eq armed_def)
  note T1 = T [THEN conjunct1, THEN mp, OF d]
  note T2 = T [THEN conjunct2, THEN conjunct1, THEN mp, OF c]
  note T3 = T [THEN conjunct2, THEN conjunct2, THEN conjunct1, THEN mp, OF l]
  note T4 = T [THEN conjunct2, THEN conjunct2, THEN conjunct2, THEN conjunct1, THEN mp, OF ad]
  note T5 = T [THEN conjunct2, THEN conjunct2, THEN conjunct2, THEN conjunct2, THEN conjunct1,
      THEN mp, OF ac]
  note T6 = T [THEN conjunct2, THEN conjunct2, THEN conjunct2, THEN conjunct2, THEN conjunct2,
      THEN mp, OF al, THEN conjunct2]
  show ?thesis
    by (intro conjI d c l T1 T2 T3 T4 T5 T6 ad [THEN conjunct1] ad [THEN conjunct2]
        ac [THEN conjunct1] ac [THEN conjunct2] al [THEN conjunct1] al [THEN conjunct2])
qed

text \<open>
  Claim C8 as stated fails for List: when nothing arrives before the deadline,
  list-groups.js ends with exit status 0 and never reports a \<^verbatim>\<open>Timeout\<close> failure.
\<close>

theorem list_deadline_is_no_timeout_failure:
  "list_run sample_env [(0, Open), (5000, TimerFired Deadline), (5001, SocketClose)] =
     \<lparr> vars = \<lparr> authenticatedL = False, groups = [] \<rparr>,
       trace = [SetTimeout 5000 Deadline, ConsoleLog NoGroupsOrTimeout, WsClose, ProcessExit 0],
       timers = [], status = Exited 0 \<rparr> \<and>
   ConsoleError Timeout \<notin>
     set (trace (list_run sample_env
        [(0, Open), (5000, TimerFired Deadline), (5001, SocketClose)]))"
proof -
  have h: "haveKey sample_env"
    by (simp add: sample_env_def)
  have r: "list_run sample_env [(0, Open), (5000, TimerFired Deadline), (5001, SocketClose)] =
     \<lparr> vars = \<lparr> authenticatedL = False, groups = [] \<rparr>,
       trace = [SetTimeout 5000 Deadline, ConsoleLog NoGroupsOrTimeout, WsClose, ProcessExit 0],
       timers = [], status = Exited 0 \<rparr>"
    by (simp add: list_run_def list_init_eq list_step_def h list_timer_def armed_def
        perform_def perform1_def)
  show ?thesis
    by (simp add: r)
qed

text \<open>
  How the scripts route an \<^verbatim>\<open>OK\<close> frame whose identifier is not that of the delete or
  create event: delete-group.js and the public case of create-group.js drop it, the
  private case of create-group.js ends the run on it.
\<close>

lemma ok_frame_routing:
  assumes "js_index r 0 = Inr (JStr ''OK'')"
  shows "elem r 1 \<noteq> JStr (ev_id (delete_signedEvent e)) \<Longrightarrow> delete_message e now r = Inr []"
    and "elem r 1 \<noteq> JStr (ev_id (create_signedEvent e)) \<Longrightarrow> \<not> isPrivate e \<Longrightarrow>
         create_message e now r v = Inr ([], v)"
    and "elem r 1 \<noteq> JStr (ev_id (create_signedEvent e)) \<Longrightarrow> isPrivate e \<Longrightarrow>
         \<exists>es. create_message e now r v = Inr (es @ [WsClose], v)"
  using assms
  by (simp_all add: delete_message_def create_message_def Let_def)

text \<open>
  Claim C9 does not hold for create-group.js with \<^verbatim>\<open>--private\<close>: its \<^verbatim>\<open>OK\<close> branch
  compares the identifier with the create event's only, and takes every other \<^verbatim>\<open>OK\<close>
  frame for the reply to the invite event. Here the relay acknowledges the
  authentication event: the script prints that the invite was created, calls
  \<^verbatim>\<open>ws.close()\<close> and ends with status 0, before the existence check and the create
  event were ever sent.
\<close>

theorem auth_ack_taken_for_invite_reply:
  "isPrivate sample_env \<and>
   ev_id (authEvent sample_env 10 (JStr ''nonce123'')) = ''auth-id'' \<and>
   ev_id (create_signedEvent sample_env) = ''event-id'' \<and>
   create_run sample_env
     [(10, Message ''[\"AUTH\",\"nonce123\"]''), (60, Message ''[\"OK\",\"auth-id\",true,\"\"]''),
      (70, SocketClose)] =
     \<lparr> vars = \<lparr> authenticated = True, groupExists = False \<rparr>,
       trace = [SetTimeout 15000 Deadline, ConsoleLog Authenticating,
                WsSend (OutAuth (authEvent sample_env 10 (JStr ''nonce123''))),
                SetTimeout 300 SendCheckReq,
                ConsoleLog InviteCreated, ConsoleLog Blank, ConsoleLog Rule,
                ConsoleLog (InviteUrl ''http://localhost:5173'' ''teamchat/abcdefghijkl''),
                ConsoleLog Rule, ConsoleLog Blank, ConsoleLog ShareThisUrl, WsClose,
                ProcessExit 0],
       timers = [(15000, Deadline), (300, SendCheckReq)], status = Exited 0 \<rparr>"
proof -
  have m: "create_message sample_env 60
             (JArr [JStr ''OK'', JStr ''auth-id'', JBool True, JStr []])
             \<lparr> authenticated = True, groupExists = False \<rparr> =
           Inr ([ConsoleLog InviteCreated, ConsoleLog Blank, ConsoleLog Rule,
                 ConsoleLog (InviteUrl ''http://localhost:5173'' ''teamchat/abcdefghijkl''),
                 ConsoleLog Rule, ConsoleLog Blank, ConsoleLog ShareThisUrl, WsClose],
                \<lparr> authenticated = True, groupExists = False \<rparr>)"
    by (simp add: create_message_def sample_create_id sample_misc sample_groupId
        sample_inviteCode)
  have r: "create_run sample_env
     [(10, Message ''[\"AUTH\",\"nonce123\"]''), (60, Message ''[\"OK\",\"auth-id\",true,\"\"]''),
      (70, SocketClose)] =
     \<lparr> vars = \<lparr> authenticated = True, groupExists = False \<rparr>,
       trace = [SetTimeout 15000 Deadline, ConsoleLog Authenticating,
                WsSend (OutAuth (authEvent sample_env 10 (JStr ''nonce123''))),
                SetTimeout 300 SendCheckReq,
                ConsoleLog InviteCreated, ConsoleLog Blank, ConsoleLog Rule,
                ConsoleLog (InviteUrl ''http://localhost:5173'' ''teamchat/abcdefghijkl''),
                ConsoleLog Rule, ConsoleLog Blank, ConsoleLog ShareThisUrl, WsClose,
                ProcessExit 0],
       timers = [(15000, Deadline), (300, SendCheckReq)], status = Exited 0 \<rparr>"
    by (simp add: create_run_def sample_create_auth_step)
       (simp add: create_step_def sample_parse_auth_ack m perform_def perform1_def)
  show ?thesis
    by (intro conjI sample_misc(1) sample_auth_id sample_create_id r)
qed



end
